theory Spec2Isabelle
  imports Complex_Main
begin

section \<open>JavaScript numbers\<close>

text \<open>
  A JavaScript number is an IEEE-754 double: NaN, the two infinities, or a finite value.
  Every finite double is a rational, so a finite value is carried as a real; signed zeros
  are not told apart (no function below divides by zero or prints a zero).
  \<open>Math.floor\<close>, \<open>Math.round\<close>, \<open>Math.min\<close>, \<open>Math.max\<close> and the comparisons are exact on
  doubles. Addition, multiplication and division round their exact result; the rounding
  of the language is a parameter \<open>rnd\<close> (any function on the reals), and a rounded result
  beyond the largest double overflows to an infinity.
\<close>

datatype number = NaN | NegInf | PosInf | Fin real

definition MAX_VALUE :: real where
  "MAX_VALUE = (2 ^ 53 - 1) * 2 ^ 971"

definition overflow :: "(real \<Rightarrow> real) \<Rightarrow> real \<Rightarrow> number" where
  "overflow rnd x =
     (let y = rnd x in
      if y > MAX_VALUE then PosInf else if y < - MAX_VALUE then NegInf else Fin y)"

fun js_floor :: "number \<Rightarrow> number" where
  "js_floor (Fin x) = Fin (of_int \<lfloor>x\<rfloor>)"
| "js_floor n = n"

text \<open>\<open>Math.round\<close>: the nearest integer, a tie going towards plus infinity.\<close>

fun js_round :: "number \<Rightarrow> number" where
  "js_round (Fin x) = Fin (of_int \<lfloor>x + 1 / 2\<rfloor>)"
| "js_round n = n"

fun js_min :: "number \<Rightarrow> number \<Rightarrow> number" where
  "js_min NaN _ = NaN"
| "js_min _ NaN = NaN"
| "js_min NegInf _ = NegInf"
| "js_min _ NegInf = NegInf"
| "js_min PosInf b = b"
| "js_min a PosInf = a"
| "js_min (Fin x) (Fin y) = Fin (min x y)"

fun js_max :: "number \<Rightarrow> number \<Rightarrow> number" where
  "js_max NaN _ = NaN"
| "js_max _ NaN = NaN"
| "js_max PosInf _ = PosInf"
| "js_max _ PosInf = PosInf"
| "js_max NegInf b = b"
| "js_max a NegInf = a"
| "js_max (Fin x) (Fin y) = Fin (max x y)"

text \<open>\<open>a <= b\<close>: false as soon as one side is NaN.\<close>

fun js_le :: "number \<Rightarrow> number \<Rightarrow> bool" where
  "js_le NaN _ = False"
| "js_le _ NaN = False"
| "js_le NegInf _ = True"
| "js_le _ PosInf = True"
| "js_le PosInf _ = False"
| "js_le _ NegInf = False"
| "js_le (Fin x) (Fin y) = (x \<le> y)"


fun js_add :: "(real \<Rightarrow> real) \<Rightarrow> number \<Rightarrow> number \<Rightarrow> number" where
  "js_add rnd NaN _ = NaN"
| "js_add rnd _ NaN = NaN"
| "js_add rnd PosInf NegInf = NaN"
| "js_add rnd NegInf PosInf = NaN"
| "js_add rnd PosInf _ = PosInf"
| "js_add rnd _ PosInf = PosInf"
| "js_add rnd NegInf _ = NegInf"
| "js_add rnd _ NegInf = NegInf"
| "js_add rnd (Fin x) (Fin y) = overflow rnd (x + y)"

text \<open>The sign of an infinite product or quotient; a zero counts as positive.\<close>

definition signed_inf :: "bool \<Rightarrow> number" where
  "signed_inf neg = (if neg then NegInf else PosInf)"

fun js_mul :: "(real \<Rightarrow> real) \<Rightarrow> number \<Rightarrow> number \<Rightarrow> number" where
  "js_mul rnd NaN _ = NaN"
| "js_mul rnd _ NaN = NaN"
| "js_mul rnd PosInf PosInf = PosInf"
| "js_mul rnd PosInf NegInf = NegInf"
| "js_mul rnd NegInf PosInf = NegInf"
| "js_mul rnd NegInf NegInf = PosInf"
| "js_mul rnd PosInf (Fin y) = (if y = 0 then NaN else signed_inf (y < 0))"
| "js_mul rnd NegInf (Fin y) = (if y = 0 then NaN else signed_inf (0 < y))"
| "js_mul rnd (Fin x) PosInf = (if x = 0 then NaN else signed_inf (x < 0))"
| "js_mul rnd (Fin x) NegInf = (if x = 0 then NaN else signed_inf (0 < x))"
| "js_mul rnd (Fin x) (Fin y) = overflow rnd (x * y)"

fun js_div :: "(real \<Rightarrow> real) \<Rightarrow> number \<Rightarrow> number \<Rightarrow> number" where
  "js_div rnd NaN _ = NaN"
| "js_div rnd _ NaN = NaN"
| "js_div rnd PosInf (Fin y) = signed_inf (y < 0)"
| "js_div rnd NegInf (Fin y) = signed_inf (0 \<le> y)"
| "js_div rnd (Fin x) (Fin y) =
     (if y = 0 then (if x = 0 then NaN else signed_inf (x < 0))
      else overflow rnd (x / y))"
| "js_div rnd (Fin x) _ = Fin 0"
| "js_div rnd _ _ = NaN"

text \<open>Truthiness of a number: \<open>0\<close> and NaN are falsy.\<close>

fun truthy_num :: "number \<Rightarrow> bool" where
  "truthy_num NaN = False"
| "truthy_num (Fin x) = (x \<noteq> 0)"
| "truthy_num _ = True"

text \<open>\<open>Number.isFinite\<close>.\<close>

fun isFinite :: "number \<Rightarrow> bool" where
  "isFinite (Fin x) = True"
| "isFinite _ = False"

text \<open>\<open>a ?? b\<close>, an absent (null or undefined) value being \<open>None\<close>.\<close>

definition nullish :: "'a option \<Rightarrow> 'a \<Rightarrow> 'a" where
  "nullish a b = (case a of None \<Rightarrow> b | Some v \<Rightarrow> v)"

definition nullish_opt :: "'a option \<Rightarrow> 'a option \<Rightarrow> 'a option" where
  "nullish_opt a b = (case a of None \<Rightarrow> b | Some v \<Rightarrow> Some v)"

section \<open>The stdin payload (src/src/stdin.ts)\<close>

text \<open>
  The context-window block of \<open>StdinData\<close>. An optional field is an option: \<open>None\<close> is a
  field that is missing or null. The other fields of the payload (transcript path, cwd,
  model) are not read by the functions below.
\<close>

record current_usage =
  input_tokens :: "number option"
  cache_creation_input_tokens :: "number option"
  cache_read_input_tokens :: "number option"

record context_window =
  context_window_size :: "number option"
  used_percentage :: "number option"
  remaining_percentage :: "number option"
  current_usage :: "current_usage option"

record StdinData =
  context_window :: "context_window option"

text \<open>\<open>stdin.context_window?.current_usage?.f ?? 0\<close>.\<close>

definition usage_field :: "StdinData \<Rightarrow> (current_usage \<Rightarrow> number option) \<Rightarrow> number" where
  "usage_field stdin f =
     nullish (Option.bind (Option.bind (context_window stdin) current_usage) f) (Fin 0)"

definition getTotalTokens :: "(real \<Rightarrow> real) \<Rightarrow> StdinData \<Rightarrow> number" where
  "getTotalTokens rnd stdin =
     js_add rnd
       (js_add rnd (usage_field stdin input_tokens)
                   (usage_field stdin cache_creation_input_tokens))
       (usage_field stdin cache_read_input_tokens)"

definition getContextPercent :: "(real \<Rightarrow> real) \<Rightarrow> StdinData \<Rightarrow> number" where
  "getContextPercent rnd stdin =
     (case Option.bind (context_window stdin) used_percentage of
        Some usedPct \<Rightarrow> js_min (Fin 100) (js_floor usedPct)
      | None \<Rightarrow>
          (case Option.bind (context_window stdin) context_window_size of
             None \<Rightarrow> Fin 0
           | Some sz \<Rightarrow>
               if \<not> truthy_num sz \<or> js_le sz (Fin 0) then Fin 0
               else js_min (Fin 100)
                      (js_floor (js_mul rnd (js_div rnd (getTotalTokens rnd stdin) sz)
                                         (Fin 100)))))"

section \<open>Parsing utilization (src/dist/usage-api.js)\<close>

definition parseUtilization :: "number option \<Rightarrow> number option" where
  "parseUtilization v =
     (case v of
        None \<Rightarrow> None
      | Some x \<Rightarrow>
          if \<not> isFinite x then None
          else Some (js_round (js_max (Fin 0) (js_min (Fin 100) x))))"

section \<open>Strings\<close>

text \<open>
  Strings are lists of characters and are taken to be ASCII: \<open>toLowerCase\<close> and
  \<open>toUpperCase\<close> change the letters A to Z and a to z only.
\<close>

definition lower_char :: "char \<Rightarrow> char" where
  "lower_char c =
     (case map_of (zip ''ABCDEFGHIJKLMNOPQRSTUVWXYZ'' ''abcdefghijklmnopqrstuvwxyz'') c of
        None \<Rightarrow> c | Some l \<Rightarrow> l)"

definition upper_char :: "char \<Rightarrow> char" where
  "upper_char c =
     (case map_of (zip ''abcdefghijklmnopqrstuvwxyz'' ''ABCDEFGHIJKLMNOPQRSTUVWXYZ'') c of
        None \<Rightarrow> c | Some u \<Rightarrow> u)"

definition toLowerCase :: "string \<Rightarrow> string" where
  "toLowerCase s = map lower_char s"

fun startsWith :: "string \<Rightarrow> string \<Rightarrow> bool" where
  "startsWith s [] = True"
| "startsWith [] (p # ps) = False"
| "startsWith (c # cs) (p # ps) = (c = p \<and> startsWith cs ps)"

fun str_includes :: "string \<Rightarrow> string \<Rightarrow> bool" where
  "str_includes [] sub = (sub = [])"
| "str_includes (c # cs) sub = (startsWith (c # cs) sub \<or> str_includes cs sub)"

text \<open>Truthiness of an optional string: absent and the empty string are falsy.\<close>

definition truthy_str :: "string option \<Rightarrow> bool" where
  "truthy_str s = (case s of None \<Rightarrow> False | Some v \<Rightarrow> v \<noteq> [])"

text \<open>The decimal digits of a natural number, as a template literal prints it.\<close>

definition digit_char :: "nat \<Rightarrow> char" where
  "digit_char d = ''0123456789'' ! d"

fun show_nat :: "nat \<Rightarrow> string" where
  "show_nat n =
     (if n < 10 then [digit_char n]
      else show_nat (n div 10) @ [digit_char (n mod 10)])"

section \<open>The usage endpoints' responses and their merge (src/dist/usage-api.js)\<close>

text \<open>
  The response interfaces of the declaration file. The \<open>utilization\<close> and \<open>resets_at\<close> of
  a window carry the prefix \<open>w_\<close>, those of a model quota the prefix \<open>q_\<close>.
\<close>

record usage_window =
  w_utilization :: "number option"
  w_resets_at :: "string option"

record ModelQuotaResponse =
  model_id :: "string option"
  display_name :: "string option"
  weekly_hours_used :: "number option"
  weekly_hours_limit :: "number option"
  tokens_used :: "number option"
  tokens_limit :: "number option"
  q_utilization :: "number option"
  q_resets_at :: "string option"

record UsageApiResponse =
  five_hour :: "usage_window option"
  seven_day :: "usage_window option"
  model_quotas :: "ModelQuotaResponse list option"
  max_plan_type :: "string option"
  compaction_buffer :: "number option"
  tokens_per_window :: "number option"

text \<open>
  \<open>primary\<close> is the legacy endpoint's response, \<open>secondary\<close> the enhanced one's; \<open>None\<close>
  is an endpoint that did not respond (the fetch resolved to null).
\<close>

definition mergeApiResponses ::
  "UsageApiResponse option \<Rightarrow> UsageApiResponse option \<Rightarrow> UsageApiResponse option" where
  "mergeApiResponses primary secondary =
     (case (primary, secondary) of
        (None, None) \<Rightarrow> None
      | (None, Some s) \<Rightarrow> Some s
      | (Some p, None) \<Rightarrow> Some p
      | (Some p, Some s) \<Rightarrow>
          Some \<lparr> five_hour = nullish_opt (five_hour p) (five_hour s),
                 seven_day = nullish_opt (seven_day p) (seven_day s),
                 model_quotas = nullish_opt (model_quotas p) (model_quotas s),
                 max_plan_type = nullish_opt (max_plan_type p) (max_plan_type s),
                 compaction_buffer = nullish_opt (compaction_buffer p) (compaction_buffer s),
                 tokens_per_window = nullish_opt (tokens_per_window p) (tokens_per_window s) \<rparr>)"

section \<open>Parsing a merged response (src/dist/usage-api.js)\<close>

text \<open>
  A \<open>Date\<close> is carried by its time value in milliseconds, or is an Invalid Date.
  \<open>new Date(s)\<close> on a string is the language's parser, a parameter \<open>newDate\<close>. A date that
  \<open>parseDate\<close> returns is valid, and is kept as its time value.
\<close>

datatype date = Date int | InvalidDate

definition parseDate :: "(string \<Rightarrow> date) \<Rightarrow> string option \<Rightarrow> int option" where
  "parseDate newDate dateStr =
     (case dateStr of
        None \<Rightarrow> None
      | Some str \<Rightarrow>
          if str = [] then None
          else (case newDate str of InvalidDate \<Rightarrow> None | Date t \<Rightarrow> Some t))"

text \<open>
  A date held by a model quota: the \<open>Date\<close> object that \<open>parseDate\<close> made, or the ISO string
  that \<open>JSON.stringify\<close> turned it into (\<open>readCache\<close> does not turn it back); both carry the
  time value.
\<close>

datatype date_field = DateObject int | IsoString int

record ModelQuota =
  modelId :: string
  displayName :: string
  weeklyHoursUsed :: "number option"
  weeklyHoursLimit :: "number option"
  tokensUsed :: "number option"
  tokensLimit :: "number option"
  utilization :: "number option"
  resetsAt :: "date_field option"

definition parseModelQuota :: "(string \<Rightarrow> date) \<Rightarrow> ModelQuotaResponse \<Rightarrow> ModelQuota" where
  "parseModelQuota newDate q =
     \<lparr> modelId = nullish (model_id q) ''unknown'',
       displayName = nullish (nullish_opt (display_name q) (model_id q)) ''Unknown Model'',
       weeklyHoursUsed = weekly_hours_used q,
       weeklyHoursLimit = weekly_hours_limit q,
       tokensUsed = tokens_used q,
       tokensLimit = tokens_limit q,
       utilization = parseUtilization (q_utilization q),
       resetsAt = map_option DateObject (parseDate newDate (q_resets_at q)) \<rparr>"

definition parseModelQuotas ::
  "(string \<Rightarrow> date) \<Rightarrow> ModelQuotaResponse list option \<Rightarrow> ModelQuota list" where
  "parseModelQuotas newDate quotas =
     (case quotas of None \<Rightarrow> [] | Some qs \<Rightarrow> map (parseModelQuota newDate) qs)"

datatype tier = Max5 | Max20

record MaxPlanInfo =
  tier :: "tier option"
  tokensPerWindow :: "number option"
  isActive :: bool

definition tier_of_plan_type ::
  "string option \<Rightarrow> number option \<Rightarrow> tier option \<times> number option" where
  "tier_of_plan_type maxPlanType tpw =
     (case maxPlanType of
        None \<Rightarrow> (None, None)
      | Some mpt \<Rightarrow>
          if mpt = [] then (None, None)
          else
            let lower = toLowerCase mpt in
            if str_includes lower ''max20'' \<or> lower = ''20''
              then (Some Max20, Some (nullish tpw (Fin 220000)))
            else if str_includes lower ''max5'' \<or> lower = ''5''
              then (Some Max5, Some (nullish tpw (Fin 88000)))
            else (None, None))"

definition tier_of_rate_limit ::
  "string option \<Rightarrow> tier option \<times> number option \<Rightarrow> tier option \<times> number option" where
  "tier_of_rate_limit rateLimitTier tc =
     (case rateLimitTier of
        None \<Rightarrow> tc
      | Some rlt \<Rightarrow>
          if fst tc \<noteq> None \<or> rlt = [] then tc
          else
            let lower = toLowerCase rlt in
            if str_includes lower ''max20'' \<or> str_includes lower ''tier_20''
              then (Some Max20, Some (Fin 220000))
            else if str_includes lower ''max5'' \<or> str_includes lower ''tier_5''
              then (Some Max5, Some (Fin 88000))
            else tc)"

definition parseMaxPlanInfo ::
  "string option \<Rightarrow> number option \<Rightarrow> string option \<Rightarrow> MaxPlanInfo" where
  "parseMaxPlanInfo maxPlanType tpw rateLimitTier =
     (let tc = tier_of_rate_limit rateLimitTier (tier_of_plan_type maxPlanType tpw) in
      \<lparr> tier = fst tc, tokensPerWindow = snd tc, isActive = (fst tc \<noteq> None) \<rparr>)"

text \<open>
  \<open>bufferPercent\<close> is a number in every \<open>CompactionInfo\<close> that \<open>parseCompactionInfo\<close> makes;
  it can be null only in a payload read back from the cache file.
\<close>

record CompactionInfo =
  bufferPercent :: "number option"
  isEnabled :: bool

definition parseCompactionInfo :: "number option \<Rightarrow> CompactionInfo" where
  "parseCompactionInfo bp =
     (case bp of
        None \<Rightarrow> \<lparr> bufferPercent = Some (Fin 80), isEnabled = False \<rparr>
      | Some x \<Rightarrow>
          if \<not> isFinite x then \<lparr> bufferPercent = Some (Fin 80), isEnabled = False \<rparr>
          else \<lparr> bufferPercent = Some (js_round (js_max (Fin 50) (js_min (Fin 100) x))),
                 isEnabled = True \<rparr>)"

text \<open>
  \<open>resetAt\<close> and \<open>now\<close> are integers (milliseconds); \<open>Math.ceil(diffMs / 60000)\<close> of a
  positive integer is \<open>(diffMs + 59999) div 60000\<close>.
\<close>

definition formatTimeToReset :: "int \<Rightarrow> int \<Rightarrow> string" where
  "formatTimeToReset resetAt now =
     (let diffMs = resetAt - now in
      if diffMs \<le> 0 then ''now''
      else
        let totalMins = nat ((diffMs + 59999) div 60000) in
        if totalMins < 60 then show_nat totalMins @ ''m''
        else
          let hours = totalMins div 60; mins = totalMins mod 60 in
          if hours < 24 then
            (if mins > 0 then show_nat hours @ ''h '' @ show_nat mins @ ''m''
             else show_nat hours @ ''h'')
          else
            let days = hours div 24; remainingHours = hours mod 24 in
            if remainingHours > 0 then show_nat days @ ''d '' @ show_nat remainingHours @ ''h''
            else show_nat days @ ''d'')"

definition getPlanName :: "string \<Rightarrow> bool \<Rightarrow> string option" where
  "getPlanName subscriptionType hasOAuthToken =
     (let lower = toLowerCase subscriptionType in
      if str_includes lower ''max'' then Some ''Max''
      else if str_includes lower ''pro'' then Some ''Pro''
      else if str_includes lower ''team'' then Some ''Team''
      else if str_includes lower ''api'' then None
      else if subscriptionType = [] \<and> hasOAuthToken then Some ''Pro''
      else if subscriptionType = [] then None
      else Some (upper_char (hd subscriptionType) # tl subscriptionType))"

section \<open>The usage cache slot (src/dist/usage-api.js)\<close>

record UsageData =
  planName :: "string option"
  fiveHour :: "number option"
  sevenDay :: "number option"
  fiveHourResetAt :: "int option"
  sevenDayResetAt :: "int option"
  apiUnavailable :: bool
  modelQuotas :: "ModelQuota list option"
  maxPlanInfo :: "MaxPlanInfo option"
  compactionInfo :: "CompactionInfo option"
  organizationUuid :: "string option"
  fiveHourResetIn :: "string option"
  sevenDayResetIn :: "string option"

text \<open>
  \<open>apiUnavailable\<close> is only read for its truthiness: an absent flag is \<open>False\<close>. Clock
  values are integers (Unix milliseconds).
\<close>

text \<open>
  What \<open>JSON.parse\<close> gives back for the text that \<open>JSON.stringify\<close> made of a payload, with
  the two window dates turned back into dates as \<open>readCache\<close> does: a number that is not
  finite has become null, a date inside a model quota has become its ISO string, a field
  that was undefined is still absent.
\<close>

definition json_number :: "number option \<Rightarrow> number option" where
  "json_number n = (case n of Some (Fin x) \<Rightarrow> Some (Fin x) | _ \<Rightarrow> None)"

fun json_date :: "date_field \<Rightarrow> date_field" where
  "json_date (DateObject t) = IsoString t"
| "json_date (IsoString t) = IsoString t"

definition json_quota :: "ModelQuota \<Rightarrow> ModelQuota" where
  "json_quota q =
     \<lparr> modelId = modelId q, displayName = displayName q,
       weeklyHoursUsed = json_number (weeklyHoursUsed q),
       weeklyHoursLimit = json_number (weeklyHoursLimit q),
       tokensUsed = json_number (tokensUsed q),
       tokensLimit = json_number (tokensLimit q),
       utilization = json_number (utilization q),
       resetsAt = map_option json_date (resetsAt q) \<rparr>"

definition json_plan :: "MaxPlanInfo \<Rightarrow> MaxPlanInfo" where
  "json_plan m =
     \<lparr> tier = tier m, tokensPerWindow = json_number (tokensPerWindow m),
       isActive = isActive m \<rparr>"

definition json_compaction :: "CompactionInfo \<Rightarrow> CompactionInfo" where
  "json_compaction c =
     \<lparr> bufferPercent = json_number (bufferPercent c), isEnabled = isEnabled c \<rparr>"

definition jsonStored :: "UsageData \<Rightarrow> UsageData" where
  "jsonStored d =
     \<lparr> planName = planName d,
       fiveHour = json_number (fiveHour d),
       sevenDay = json_number (sevenDay d),
       fiveHourResetAt = fiveHourResetAt d,
       sevenDayResetAt = sevenDayResetAt d,
       apiUnavailable = apiUnavailable d,
       modelQuotas = map_option (map json_quota) (modelQuotas d),
       maxPlanInfo = map_option json_plan (maxPlanInfo d),
       compactionInfo = map_option json_compaction (compactionInfo d),
       organizationUuid = organizationUuid d,
       fiveHourResetIn = fiveHourResetIn d,
       sevenDayResetIn = sevenDayResetIn d \<rparr>"

text \<open>
  The parsed content of a cache file. \<open>timestamp\<close> is \<open>None\<close> when the file has no
  timestamp or one that is not a number, so that \<open>now - cache.timestamp\<close> is NaN.
\<close>

record cache_record =
  data :: UsageData
  timestamp :: "int option"

text \<open>
  The file at the cache path: missing, holding text that \<open>JSON.parse\<close> rejects (an empty
  or a half-written file) or that has no \<open>data\<close> object, or holding a record.
\<close>

datatype cache_file = Missing | Unparsable | Stored cache_record

definition CACHE_TTL_MS :: int where
  "CACHE_TTL_MS = 60000"

definition CACHE_FAILURE_TTL_MS :: int where
  "CACHE_FAILURE_TTL_MS = 15000"

text \<open>\<open>now - cache.timestamp\<close>.\<close>

definition cache_age :: "int \<Rightarrow> int option \<Rightarrow> number" where
  "cache_age now ts = (case ts of None \<Rightarrow> NaN | Some t \<Rightarrow> Fin (of_int (now - t)))"

text \<open>
  \<open>readCache\<close>: a missing file and a throw inside the try (the catch) give null; the test
  of the TTL is \<open>now - cache.timestamp >= ttl\<close>. Turning the stored ISO strings of the two
  window dates back into dates keeps their time values.
\<close>

definition readCache :: "cache_file \<Rightarrow> int \<Rightarrow> UsageData option" where
  "readCache f now =
     (case f of
        Missing \<Rightarrow> None
      | Unparsable \<Rightarrow> None
      | Stored cache \<Rightarrow>
          let ttl = (if apiUnavailable (data cache) then CACHE_FAILURE_TTL_MS
                     else CACHE_TTL_MS) in
          if js_le (Fin (of_int ttl)) (cache_age now (timestamp cache)) then None
          else Some (data cache))"

text \<open>
  A call \<open>fs.writeFileSync(path, text)\<close> takes the file at \<open>path\<close> through a sequence of
  states that another process reading the path can see. How it proceeds belongs to the
  platform, not to this program, and is a list of steps: opening the file for writing,
  which empties it, and putting the whole text in place. \<open>node_writeFileSync\<close> is what Node
  does: it opens the path itself with the flag \<open>w\<close> and then writes.
\<close>

datatype fs_step = OpenTruncate | WriteText

fun fs_apply :: "cache_record \<Rightarrow> fs_step \<Rightarrow> cache_file \<Rightarrow> cache_file" where
  "fs_apply r OpenTruncate f = Unparsable"
| "fs_apply r WriteText f = Stored r"

definition node_writeFileSync :: "fs_step list" where
  "node_writeFileSync = [OpenTruncate, WriteText]"

fun run_steps :: "cache_record \<Rightarrow> fs_step list \<Rightarrow> cache_file \<Rightarrow> cache_file" where
  "run_steps r [] f = f"
| "run_steps r (st # sts) f = run_steps r sts (fs_apply r st f)"

text \<open>The states of the file from before the first step to after the last.\<close>

fun states_during :: "cache_record \<Rightarrow> fs_step list \<Rightarrow> cache_file \<Rightarrow> cache_file list" where
  "states_during r [] f = [f]"
| "states_during r (st # sts) f = f # states_during r sts (fs_apply r st f)"

text \<open>
  \<open>writeCache\<close> makes one call of \<open>fs.writeFileSync\<close>, on the cache path, with the JSON text
  of \<open>{data, timestamp}\<close>. \<open>lib\<close> is how that call proceeds. A throw inside the try is
  ignored: \<open>failure\<close> is \<open>None\<close> when nothing throws and \<open>Some n\<close> when something throws
  after \<open>n\<close> steps of the write (none when the directory cannot be made or the file cannot
  be opened); the steps done before the throw stay done.
\<close>

definition written_record :: "UsageData \<Rightarrow> int \<Rightarrow> cache_record" where
  "written_record d ts = \<lparr> data = jsonStored d, timestamp = Some ts \<rparr>"

definition writeCache_steps :: "fs_step list \<Rightarrow> nat option \<Rightarrow> fs_step list" where
  "writeCache_steps lib failure = (case failure of None \<Rightarrow> lib | Some n \<Rightarrow> take n lib)"

definition writeCache ::
  "fs_step list \<Rightarrow> nat option \<Rightarrow> cache_file \<Rightarrow> UsageData \<Rightarrow> int \<Rightarrow> cache_file" where
  "writeCache lib failure f d ts =
     run_steps (written_record d ts) (writeCache_steps lib failure) f"

text \<open>The states of the cache file that can be seen while \<open>writeCache\<close> runs.\<close>

definition writeCache_states ::
  "fs_step list \<Rightarrow> nat option \<Rightarrow> cache_file \<Rightarrow> UsageData \<Rightarrow> int \<Rightarrow> cache_file list" where
  "writeCache_states lib failure f d ts =
     states_during (written_record d ts) (writeCache_steps lib failure) f"

section \<open>Credentials (src/dist/usage-api.js)\<close>

record ClaudeAiOauth =
  accessToken :: "string option"
  subscriptionType :: "string option"
  rateLimitTier :: "string option"
  expiresAt :: "int option"

record OauthAccount =
  acct_organizationUuid :: "string option"

record CredentialsData =
  claudeAiOauth :: "ClaudeAiOauth option"
  oauthAccount :: "OauthAccount option"

record Credentials =
  cr_accessToken :: string
  cr_subscriptionType :: string
  cr_organizationUuid :: "string option"
  cr_rateLimitTier :: "string option"

text \<open>
  What a run finds outside itself: the cache file, how the platform's \<open>fs.writeFileSync\<close>
  proceeds and whether a write of the cache throws (see \<open>writeCache\<close>), the parsed
  credentials file (\<open>None\<close>: missing or not JSON) and what the keychain lookup returns
  (\<open>None\<close>: another platform, no entry, or a failure).
\<close>

record world =
  cache :: cache_file
  fs_writeFileSync :: "fs_step list"
  write_failure :: "nat option"
  credentials_file :: "CredentialsData option"
  keychain :: "CredentialsData option"

definition oauth_token :: "CredentialsData \<Rightarrow> string option" where
  "oauth_token d = Option.bind (claudeAiOauth d) accessToken"

text \<open>
  The \<open>data\<close> of \<open>readCredentials\<close> once resolved: the file's, or the keychain's when the
  file gives none or one without an access token.
\<close>

definition resolveCredentialsData :: "world \<Rightarrow> CredentialsData option" where
  "resolveCredentialsData w =
     (case credentials_file w of
        None \<Rightarrow> keychain w
      | Some d \<Rightarrow> if \<not> truthy_str (oauth_token d) then keychain w else Some d)"

definition readCredentials :: "world \<Rightarrow> int \<Rightarrow> Credentials option" where
  "readCredentials w now =
     (case resolveCredentialsData w of
        None \<Rightarrow> None
      | Some d \<Rightarrow>
          (let subscriptionType =
                 nullish (Option.bind (claudeAiOauth d) subscriptionType) [];
               organizationUuid = Option.bind (oauthAccount d) acct_organizationUuid;
               rateLimitTier = Option.bind (claudeAiOauth d) rateLimitTier
           in (case oauth_token d of
                 None \<Rightarrow> None
               | Some tok \<Rightarrow>
                   if tok = [] then None
                   else if (case Option.bind (claudeAiOauth d) expiresAt of
                              None \<Rightarrow> False
                            | Some e \<Rightarrow> e \<le> now) then None
                   else Some \<lparr> cr_accessToken = tok,
                               cr_subscriptionType = subscriptionType,
                               cr_organizationUuid = organizationUuid,
                               cr_rateLimitTier = rateLimitTier \<rparr>)))"

section \<open>getUsage (src/dist/usage-api.js)\<close>

text \<open>
  The injected dependencies: the clock and the two fetch functions. A fetch takes the
  access token and the organization id and resolves to a response or to null; the default
  ones never reject. The home directory only fixes the two paths of \<open>world\<close>.
\<close>

record deps =
  fetchApi :: "string \<Rightarrow> string option \<Rightarrow> UsageApiResponse option"
  fetchUsageLimits :: "string \<Rightarrow> string option \<Rightarrow> UsageApiResponse option"
  now :: int

datatype fetch_call =
  LegacyFetch string "string option"
| EnhancedFetch string "string option"

text \<open>What a call of \<open>getUsage\<close> does: its value, the cache file it leaves, the fetches it made.\<close>

record outcome =
  returned :: "UsageData option"
  cache_after :: cache_file
  fetches :: "fetch_call list"

definition refreshCountdowns :: "UsageData \<Rightarrow> int \<Rightarrow> UsageData" where
  "refreshCountdowns cached t =
     (let c1 = (case fiveHourResetAt cached of
                  None \<Rightarrow> cached
                | Some r \<Rightarrow> cached\<lparr> fiveHourResetIn := Some (formatTimeToReset r t) \<rparr>)
      in case sevenDayResetAt c1 of
           None \<Rightarrow> c1
         | Some r \<Rightarrow> c1\<lparr> sevenDayResetIn := Some (formatTimeToReset r t) \<rparr>)"

definition failureResult :: "string \<Rightarrow> UsageData" where
  "failureResult plan =
     \<lparr> planName = Some plan, fiveHour = None, sevenDay = None,
       fiveHourResetAt = None, sevenDayResetAt = None, apiUnavailable = True,
       modelQuotas = None, maxPlanInfo = None, compactionInfo = None,
       organizationUuid = None, fiveHourResetIn = None, sevenDayResetIn = None \<rparr>"

definition parseResponse ::
  "(string \<Rightarrow> date) \<Rightarrow> string \<Rightarrow> Credentials \<Rightarrow> int \<Rightarrow> UsageApiResponse \<Rightarrow> UsageData" where
  "parseResponse newDate plan cr t mergedResponse =
     (let fiveHour = parseUtilization (Option.bind (five_hour mergedResponse) w_utilization);
          sevenDay = parseUtilization (Option.bind (seven_day mergedResponse) w_utilization);
          fiveHourResetAt = parseDate newDate (Option.bind (five_hour mergedResponse) w_resets_at);
          sevenDayResetAt = parseDate newDate (Option.bind (seven_day mergedResponse) w_resets_at);
          modelQuotas = parseModelQuotas newDate (model_quotas mergedResponse);
          maxPlanInfo = parseMaxPlanInfo (max_plan_type mergedResponse)
                          (tokens_per_window mergedResponse) (cr_rateLimitTier cr);
          compactionInfo = parseCompactionInfo (compaction_buffer mergedResponse)
      in \<lparr> planName = Some plan, fiveHour = fiveHour, sevenDay = sevenDay,
            fiveHourResetAt = fiveHourResetAt, sevenDayResetAt = sevenDayResetAt,
            apiUnavailable = False,
            modelQuotas = (if length modelQuotas > 0 then Some modelQuotas else None),
            maxPlanInfo = (if tier maxPlanInfo \<noteq> None then Some maxPlanInfo else None),
            compactionInfo = (if isEnabled compactionInfo then Some compactionInfo else None),
            organizationUuid = cr_organizationUuid cr,
            fiveHourResetIn = map_option (\<lambda>r. formatTimeToReset r t) fiveHourResetAt,
            sevenDayResetIn = map_option (\<lambda>r. formatTimeToReset r t) sevenDayResetAt \<rparr>)"

text \<open>The part of \<open>getUsage\<close> after a cache miss.\<close>

definition fetchUsage :: "(string \<Rightarrow> date) \<Rightarrow> deps \<Rightarrow> world \<Rightarrow> outcome" where
  "fetchUsage newDate dp w =
     (case readCredentials w (now dp) of
        None \<Rightarrow> \<lparr> returned = None, cache_after = cache w, fetches = [] \<rparr>
      | Some cr \<Rightarrow>
          (case getPlanName (cr_subscriptionType cr) True of
             None \<Rightarrow> \<lparr> returned = None, cache_after = cache w, fetches = [] \<rparr>
           | Some plan \<Rightarrow>
               (let apiResponse = fetchApi dp (cr_accessToken cr) (cr_organizationUuid cr);
                    usageLimitsResponse =
                      fetchUsageLimits dp (cr_accessToken cr) (cr_organizationUuid cr);
                    calls = [LegacyFetch (cr_accessToken cr) (cr_organizationUuid cr),
                             EnhancedFetch (cr_accessToken cr) (cr_organizationUuid cr)]
                in (case mergeApiResponses apiResponse usageLimitsResponse of
                      None \<Rightarrow>
                        \<lparr> returned = Some (failureResult plan),
                          cache_after =
                            writeCache (fs_writeFileSync w) (write_failure w) (cache w)
                              (failureResult plan) (now dp),
                          fetches = calls \<rparr>
                    | Some mergedResponse \<Rightarrow>
                        (let result = parseResponse newDate plan cr (now dp) mergedResponse
                         in \<lparr> returned = Some result,
                               cache_after =
                                 writeCache (fs_writeFileSync w) (write_failure w) (cache w)
                                   result (now dp),
                               fetches = calls \<rparr>)))))"

definition getUsage :: "(string \<Rightarrow> date) \<Rightarrow> deps \<Rightarrow> world \<Rightarrow> outcome" where
  "getUsage newDate dp w =
     (case readCache (cache w) (now dp) of
        Some cached \<Rightarrow>
          \<lparr> returned = Some (refreshCountdowns cached (now dp)),
            cache_after = cache w, fetches = [] \<rparr>
      | None \<Rightarrow> fetchUsage newDate dp w)"

section \<open>The transcript accumulator (src/unnamed/part_001)\<close>

text \<open>
  The interfaces of the source as records; a field name that several interfaces share
  carries a prefix (\<open>t_\<close> for a tool entry, \<open>a_\<close> for an agent entry, \<open>b_\<close> for a content
  block, \<open>l_\<close> for a transcript line, \<open>in_\<close> for a block's input). A line whose JSON
  value has not the shape of \<open>TranscriptLine\<close> is outside the model.
\<close>

datatype tool_status = Running | Completed | Error

datatype agent_status = AgentRunning | AgentCompleted

datatype todo_status = Pending | InProgress | TodoCompleted

record TodoItem =
  todo_content :: string
  todo_status :: todo_status

record ToolEntry =
  t_id :: string
  t_name :: string
  t_target :: "string option"
  t_status :: tool_status
  t_startTime :: date
  t_endTime :: "date option"

record AgentEntry =
  a_id :: string
  a_type :: string
  a_model :: "string option"
  a_description :: "string option"
  a_status :: agent_status
  a_startTime :: date
  a_endTime :: "date option"

text \<open>The fields of a block's \<open>input\<close> that the accumulator reads.\<close>

record tool_input =
  in_file_path :: "string option"
  in_path :: "string option"
  in_pattern :: "string option"
  in_command :: "string option"
  in_subagent_type :: "string option"
  in_model :: "string option"
  in_description :: "string option"
  in_todos :: "TodoItem list option"

record ContentBlock =
  b_type :: string
  b_id :: "string option"
  b_name :: "string option"
  b_text :: "string option"
  b_input :: "tool_input option"
  b_tool_use_id :: "string option"
  b_is_error :: "bool option"

datatype content = Text string | Blocks "ContentBlock list"

record message =
  m_content :: "content option"

record TranscriptLine =
  l_type :: "string option"
  l_timestamp :: "string option"
  l_message :: "message option"

record TranscriptData =
  tools :: "ToolEntry list"
  agents :: "AgentEntry list"
  todos :: "TodoItem list"
  sessionStart :: "date option"
  lastUserMessage :: "string option"

text \<open>
  A JavaScript \<open>Map\<close> keeps its keys in insertion order: a list of key-value pairs.
  \<open>set\<close> on a key that is there replaces the value where it stands; on a new key it
  appends. \<open>map_modify\<close> is a write through the object that \<open>get\<close> returned.
\<close>

fun map_set :: "'k \<Rightarrow> 'v \<Rightarrow> ('k \<times> 'v) list \<Rightarrow> ('k \<times> 'v) list" where
  "map_set k v [] = [(k, v)]"
| "map_set k v ((k', v') # ps) =
     (if k' = k then (k, v) # ps else (k', v') # map_set k v ps)"

fun map_modify :: "'k \<Rightarrow> ('v \<Rightarrow> 'v) \<Rightarrow> ('k \<times> 'v) list \<Rightarrow> ('k \<times> 'v) list" where
  "map_modify k f [] = []"
| "map_modify k f ((k', v') # ps) =
     (if k' = k then (k', f v') # ps else (k', v') # map_modify k f ps)"

definition map_values :: "('k \<times> 'v) list \<Rightarrow> 'v list" where
  "map_values m = map snd m"

text \<open>\<open>xs.slice(-n)\<close>: the last \<open>n\<close> elements, all of them when there are fewer.\<close>

definition slice_last :: "nat \<Rightarrow> 'a list \<Rightarrow> 'a list" where
  "slice_last n xs = drop (length xs - n) xs"

text \<open>White space (in ASCII): tab, line feed, vertical tab, form feed, carriage return, space.\<close>

definition is_space :: "char \<Rightarrow> bool" where
  "is_space c = (c \<in> set [CHR 0x09, CHR 0x0A, CHR 0x0B, CHR 0x0C, CHR 0x0D, CHR 0x20])"

definition trim :: "string \<Rightarrow> string" where
  "trim s = rev (dropWhile is_space (rev (dropWhile is_space s)))"

text \<open>Every line feed becomes a space, then every run of white space becomes one space (the
  two \<open>replace\<close> calls); the flag says that a run is open.\<close>

definition replace_newlines :: "string \<Rightarrow> string" where
  "replace_newlines s = map (\<lambda>c. if c = CHR 0x0A then CHR 0x20 else c) s"

fun collapse_spaces :: "bool \<Rightarrow> string \<Rightarrow> string" where
  "collapse_spaces in_run [] = []"
| "collapse_spaces in_run (c # cs) =
     (if is_space c then
        (if in_run then collapse_spaces True cs else CHR 0x20 # collapse_spaces True cs)
      else c # collapse_spaces False cs)"

definition normalize_text :: "string \<Rightarrow> string" where
  "normalize_text s = trim (collapse_spaces False (replace_newlines s))"

fun join_space :: "string list \<Rightarrow> string" where
  "join_space [] = []"
| "join_space [x] = x"
| "join_space (x # y # ys) = x @ [CHR 0x20] @ join_space (y # ys)"

definition extractUserText :: "content \<Rightarrow> string" where
  "extractUserText c =
     (case c of
        Text str \<Rightarrow> normalize_text str
      | Blocks bs \<Rightarrow>
          normalize_text
            (join_space
               (concat (map (\<lambda>b. if b_type b = ''text'' \<and> truthy_str (b_text b)
                                   then [nullish (b_text b) []] else []) bs))))"

definition isUnhelpfulMessage :: "string \<Rightarrow> bool" where
  "isUnhelpfulMessage msg =
     (startsWith msg ''[Request interrupted'' \<or> startsWith msg ''[Request cancelled'' \<or> msg = [])"

definition extractTarget :: "string \<Rightarrow> tool_input option \<Rightarrow> string option" where
  "extractTarget toolName inp =
     (case inp of
        None \<Rightarrow> None
      | Some i \<Rightarrow>
          if toolName = ''Read'' \<or> toolName = ''Write'' \<or> toolName = ''Edit''
            then nullish_opt (in_file_path i) (in_path i)
          else if toolName = ''Glob'' then in_pattern i
          else if toolName = ''Grep'' then in_pattern i
          else if toolName = ''Bash'' then
            (case in_command i of
               None \<Rightarrow> Some ''undefined''
             | Some cmd \<Rightarrow> Some (take 30 cmd @ (if length cmd > 30 then ''...'' else [])))
          else None)"

text \<open>
  The running state of a pass: the two maps, the latest todo list, \<open>result.sessionStart\<close>,
  the user messages kept so far, and the number of times \<open>new Date()\<close> has read the clock.
\<close>

record acc =
  toolMap :: "(string \<times> ToolEntry) list"
  agentMap :: "(string \<times> AgentEntry) list"
  latestTodos :: "TodoItem list"
  resultSessionStart :: "date option"
  userMessages :: "string list"
  clockReads :: nat

definition truthy_flag :: "bool option \<Rightarrow> bool" where
  "truthy_flag b = (b = Some True)"

definition tool_use_step :: "date \<Rightarrow> ContentBlock \<Rightarrow> acc \<Rightarrow> acc" where
  "tool_use_step stamp b st =
     (case (b_id b, b_name b) of
        (Some i, Some n) \<Rightarrow>
          if b_type b = ''tool_use'' \<and> i \<noteq> [] \<and> n \<noteq> [] then
            (if n = ''Task'' then
               st\<lparr> agentMap :=
                     map_set i
                       \<lparr> a_id = i,
                         a_type = nullish (Option.bind (b_input b) in_subagent_type) ''unknown'',
                         a_model = Option.bind (b_input b) in_model,
                         a_description = Option.bind (b_input b) in_description,
                         a_status = AgentRunning,
                         a_startTime = stamp,
                         a_endTime = None \<rparr>
                       (agentMap st) \<rparr>
             else if n = ''TodoWrite'' then
               (case Option.bind (b_input b) in_todos of
                  None \<Rightarrow> st
                | Some tds \<Rightarrow> st\<lparr> latestTodos := tds \<rparr>)
             else
               st\<lparr> toolMap :=
                     map_set i
                       \<lparr> t_id = i, t_name = n, t_target = extractTarget n (b_input b),
                         t_status = Running, t_startTime = stamp, t_endTime = None \<rparr>
                       (toolMap st) \<rparr>)
          else st
      | _ \<Rightarrow> st)"

definition tool_result_step :: "date \<Rightarrow> ContentBlock \<Rightarrow> acc \<Rightarrow> acc" where
  "tool_result_step stamp b st =
     (case b_tool_use_id b of
        None \<Rightarrow> st
      | Some u \<Rightarrow>
          if b_type b = ''tool_result'' \<and> u \<noteq> [] then
            st\<lparr> toolMap :=
                  map_modify u
                    (\<lambda>tool. tool\<lparr> t_status := (if truthy_flag (b_is_error b) then Error
                                                 else Completed),
                                  t_endTime := Some stamp \<rparr>)
                    (toolMap st),
                agentMap :=
                  map_modify u
                    (\<lambda>agent. agent\<lparr> a_status := AgentCompleted, a_endTime := Some stamp \<rparr>)
                    (agentMap st) \<rparr>
          else st)"

text \<open>The body of the loop over the blocks of an entry.\<close>

definition processBlock :: "date \<Rightarrow> ContentBlock \<Rightarrow> acc \<Rightarrow> acc" where
  "processBlock stamp b st = tool_result_step stamp b (tool_use_step stamp b st)"

fun processBlocks :: "date \<Rightarrow> ContentBlock list \<Rightarrow> acc \<Rightarrow> acc" where
  "processBlocks stamp [] st = st"
| "processBlocks stamp (b # bs) st = processBlocks stamp bs (processBlock stamp b st)"

text \<open>
  \<open>processEntry\<close>. \<open>clock k\<close> is what the \<open>k\<close>-th argumentless \<open>new Date()\<close> of the pass
  returns; it is read only when the entry has no timestamp.
\<close>

definition processEntry ::
  "(string \<Rightarrow> date) \<Rightarrow> (nat \<Rightarrow> int) \<Rightarrow> TranscriptLine \<Rightarrow> acc \<Rightarrow> acc" where
  "processEntry newDate clock entry st =
     (let stamped = truthy_str (l_timestamp entry);
          stamp = (if stamped then newDate (nullish (l_timestamp entry) [])
                       else Date (clock (clockReads st)));
          st0 = (if stamped then st else st\<lparr> clockReads := Suc (clockReads st) \<rparr>);
          st1 = (if resultSessionStart st0 = None \<and> stamped
                 then st0\<lparr> resultSessionStart := Some stamp \<rparr> else st0)
      in (case Option.bind (l_message entry) m_content of
            Some (Blocks bs) \<Rightarrow> processBlocks stamp bs st1
          | _ \<Rightarrow> st1))"

definition truthy_content :: "content option \<Rightarrow> bool" where
  "truthy_content c = (case c of None \<Rightarrow> False | Some (Text str) \<Rightarrow> str \<noteq> [] | Some (Blocks bs) \<Rightarrow> True)"

definition collectUserMessage :: "TranscriptLine \<Rightarrow> acc \<Rightarrow> acc" where
  "collectUserMessage entry st =
     (case Option.bind (l_message entry) m_content of
        None \<Rightarrow> st
      | Some c \<Rightarrow>
          if l_type entry = Some ''user'' \<and> truthy_content (Some c) then
            (let msgText = extractUserText c in
             if msgText \<noteq> [] \<and> \<not> isUnhelpfulMessage msgText
             then st\<lparr> userMessages := userMessages st @ [msgText] \<rparr> else st)
          else st)"

text \<open>
  The body of the loop over the lines. \<open>jsonParse\<close> is \<open>JSON.parse\<close> followed by the cast
  to \<open>TranscriptLine\<close>; \<open>None\<close> is a line on which it throws, which the catch skips.
\<close>

definition processLine ::
  "(string \<Rightarrow> TranscriptLine option) \<Rightarrow> (string \<Rightarrow> date) \<Rightarrow> (nat \<Rightarrow> int) \<Rightarrow>
   string \<Rightarrow> acc \<Rightarrow> acc" where
  "processLine jsonParse newDate clock line st =
     (if trim line = [] then st
      else (case jsonParse line of
              None \<Rightarrow> st
            | Some entry \<Rightarrow> collectUserMessage entry (processEntry newDate clock entry st)))"

fun processLines ::
  "(string \<Rightarrow> TranscriptLine option) \<Rightarrow> (string \<Rightarrow> date) \<Rightarrow> (nat \<Rightarrow> int) \<Rightarrow>
   string list \<Rightarrow> acc \<Rightarrow> acc" where
  "processLines jsonParse newDate clock [] st = st"
| "processLines jsonParse newDate clock (l # ls) st =
     processLines jsonParse newDate clock ls (processLine jsonParse newDate clock l st)"

definition initial_acc :: acc where
  "initial_acc =
     \<lparr> toolMap = [], agentMap = [], latestTodos = [], resultSessionStart = None,
       userMessages = [], clockReads = 0 \<rparr>"

text \<open>What follows the loop: the trimming of the two maps' values and the last message.\<close>

definition finish :: "acc \<Rightarrow> TranscriptData" where
  "finish st =
     \<lparr> tools = slice_last 20 (map_values (toolMap st)),
       agents = slice_last 10 (map_values (agentMap st)),
       todos = latestTodos st,
       sessionStart = resultSessionStart st,
       lastUserMessage = (if length (userMessages st) > 0 then Some (last (userMessages st))
                          else None) \<rparr>"

text \<open>
  \<open>parseTranscript\<close>: \<open>file\<close> is the lines of the file at the path, \<open>None\<close> when the path is
  empty or names no file. When reading fails midway the loop ends there (the outer catch):
  the lines are then those read before the failure.
\<close>

definition parseTranscript ::
  "(string \<Rightarrow> TranscriptLine option) \<Rightarrow> (string \<Rightarrow> date) \<Rightarrow> (nat \<Rightarrow> int) \<Rightarrow>
   string list option \<Rightarrow> TranscriptData" where
  "parseTranscript jsonParse newDate clock file =
     (case file of
        None \<Rightarrow> \<lparr> tools = [], agents = [], todos = [], sessionStart = None,
                  lastUserMessage = None \<rparr>
      | Some lines \<Rightarrow> finish (processLines jsonParse newDate clock lines initial_acc))"

section \<open>Predicates and sample inputs of the statements\<close>

text \<open>A stored utilization is well formed: null, or an integer from 0 to 100.\<close>

definition valid_utilization :: "number option \<Rightarrow> bool" where
  "valid_utilization u =
     (case u of
        None \<Rightarrow> True
      | Some (Fin x) \<Rightarrow> x = of_int \<lfloor>x\<rfloor> \<and> 0 \<le> x \<and> x \<le> 100
      | Some _ \<Rightarrow> False)"

text \<open>Every utilization a \<open>UsageData\<close> holds: the two windows' and the model quotas'.\<close>

definition stored_utilizations :: "UsageData \<Rightarrow> number option list" where
  "stored_utilizations d =
     fiveHour d # sevenDay d #
       (case modelQuotas d of None \<Rightarrow> [] | Some qs \<Rightarrow> map utilization qs)"

definition utilizations_valid :: "UsageData \<Rightarrow> bool" where
  "utilizations_valid d = list_all valid_utilization (stored_utilizations d)"

definition cache_valid :: "cache_file \<Rightarrow> bool" where
  "cache_valid f = (case f of Stored r \<Rightarrow> utilizations_valid (data r) | _ \<Rightarrow> True)"

text \<open>A run with a token that has not expired, an empty cache slot and both endpoints up.\<close>

definition sample_newDate :: "string \<Rightarrow> date" where
  "sample_newDate str =
     (if str = ''2026-01-01T05:00:00.000Z'' then Date 1767243600000 else InvalidDate)"

definition sample_legacy :: UsageApiResponse where
  "sample_legacy =
     \<lparr> five_hour = Some \<lparr> w_utilization = Some (Fin 150),
                          w_resets_at = Some ''2026-01-01T05:00:00.000Z'' \<rparr>,
       seven_day = None, model_quotas = None, max_plan_type = None,
       compaction_buffer = None, tokens_per_window = None \<rparr>"

definition sample_enhanced :: UsageApiResponse where
  "sample_enhanced =
     \<lparr> five_hour = Some \<lparr> w_utilization = Some (Fin 20), w_resets_at = None \<rparr>,
       seven_day = Some \<lparr> w_utilization = Some (Fin (- 5)), w_resets_at = None \<rparr>,
       model_quotas = None, max_plan_type = Some ''max5'',
       compaction_buffer = None, tokens_per_window = None \<rparr>"

definition sample_deps :: deps where
  "sample_deps =
     \<lparr> fetchApi = (\<lambda>tok org. Some sample_legacy),
       fetchUsageLimits = (\<lambda>tok org. Some sample_enhanced),
       now = 1767240000000 \<rparr>"

definition sample_credentials :: CredentialsData where
  "sample_credentials =
     \<lparr> claudeAiOauth = Some \<lparr> accessToken = Some ''token'', subscriptionType = Some ''max'',
                              rateLimitTier = None, expiresAt = Some 1767250000000 \<rparr>,
       oauthAccount = None \<rparr>"

definition sample_world :: world where
  "sample_world =
     \<lparr> cache = Missing, fs_writeFileSync = node_writeFileSync, write_failure = None,
       credentials_file = Some sample_credentials, keychain = None \<rparr>"

text \<open>A cached success of ten seconds before the sample clock, and a cached failure of fifteen.\<close>

definition cached_success :: UsageData where
  "cached_success =
     \<lparr> planName = Some ''Max'', fiveHour = Some (Fin 37), sevenDay = Some (Fin 12),
       fiveHourResetAt = Some 1767243600000, sevenDayResetAt = None, apiUnavailable = False,
       modelQuotas = None, maxPlanInfo = None, compactionInfo = None,
       organizationUuid = None, fiveHourResetIn = Some ''2h'', sevenDayResetIn = None \<rparr>"

definition success_record :: cache_record where
  "success_record = \<lparr> data = cached_success, timestamp = Some 1767239990000 \<rparr>"



text \<open>Credentials whose token expires at the very instant of the sample clock.\<close>

definition expired_credentials :: CredentialsData where
  "expired_credentials =
     \<lparr> claudeAiOauth = Some \<lparr> accessToken = Some ''token'', subscriptionType = Some ''max'',
                              rateLimitTier = None, expiresAt = Some 1767240000000 \<rparr>,
       oauthAccount = None \<rparr>"

definition expired_world :: "cache_file \<Rightarrow> world" where
  "expired_world f =
     \<lparr> cache = f, fs_writeFileSync = node_writeFileSync, write_failure = None,
       credentials_file = Some expired_credentials, keychain = None \<rparr>"

text \<open>Every number of the payload that is present is finite.\<close>

definition finite_opt :: "number option \<Rightarrow> bool" where
  "finite_opt n = (case n of None \<Rightarrow> True | Some v \<Rightarrow> isFinite v)"

definition stdin_finite :: "StdinData \<Rightarrow> bool" where
  "stdin_finite s =
     (case context_window s of
        None \<Rightarrow> True
      | Some cw \<Rightarrow>
          finite_opt (used_percentage cw) \<and> finite_opt (context_window_size cw) \<and>
          (case current_usage cw of
             None \<Rightarrow> True
           | Some u \<Rightarrow>
               finite_opt (input_tokens u) \<and> finite_opt (cache_creation_input_tokens u) \<and>
               finite_opt (cache_read_input_tokens u)))"

text \<open>
  Sample payloads: one with a \<open>used_percentage\<close> of 42 and token counts that disagree with
  it, those with any \<open>used_percentage\<close> and the same token counts, and those with a window
  size and an input token count only. \<open>exact\<close> is the rounding that
  changes nothing, right wherever the exact result is a double.
\<close>

definition percent_stdin :: StdinData where
  "percent_stdin =
     \<lparr> context_window = Some
         \<lparr> context_window_size = Some (Fin 200000), used_percentage = Some (Fin 42),
           remaining_percentage = Some (Fin 58),
           current_usage = Some \<lparr> input_tokens = Some (Fin 150000),
                                  cache_creation_input_tokens = Some (Fin 10000),
                                  cache_read_input_tokens = None \<rparr> \<rparr> \<rparr>"

definition percentage_stdin :: "number \<Rightarrow> StdinData" where
  "percentage_stdin p =
     \<lparr> context_window = Some
         \<lparr> context_window_size = Some (Fin 200000), used_percentage = Some p,
           remaining_percentage = None,
           current_usage = Some \<lparr> input_tokens = Some (Fin 150000),
                                  cache_creation_input_tokens = Some (Fin 10000),
                                  cache_read_input_tokens = None \<rparr> \<rparr> \<rparr>"

definition tokens_stdin :: "number option \<Rightarrow> number \<Rightarrow> StdinData" where
  "tokens_stdin sz toks =
     \<lparr> context_window = Some
         \<lparr> context_window_size = sz, used_percentage = None,
           remaining_percentage = None,
           current_usage = Some \<lparr> input_tokens = Some toks,
                                  cache_creation_input_tokens = None,
                                  cache_read_input_tokens = None \<rparr> \<rparr> \<rparr>"

definition exact :: "real \<Rightarrow> real" where
  "exact x = x"

text \<open>
  The tool starts of a transcript, as the accumulator sees them: the \<open>tool_use\<close> blocks with
  an id and a name, of parsed lines, in order; those named Task start an agent, those named
  TodoWrite write the todo list, the others start a tool.
\<close>

definition is_tool_start :: "ContentBlock \<Rightarrow> bool" where
  "is_tool_start b =
     (b_type b = ''tool_use'' \<and> truthy_str (b_id b) \<and> truthy_str (b_name b) \<and>
      b_name b \<noteq> Some ''Task'' \<and> b_name b \<noteq> Some ''TodoWrite'')"

definition is_agent_start :: "ContentBlock \<Rightarrow> bool" where
  "is_agent_start b =
     (b_type b = ''tool_use'' \<and> truthy_str (b_id b) \<and> b_name b = Some ''Task'')"

definition block_tool_ids :: "ContentBlock \<Rightarrow> string list" where
  "block_tool_ids b = (if is_tool_start b then [nullish (b_id b) []] else [])"

definition block_agent_ids :: "ContentBlock \<Rightarrow> string list" where
  "block_agent_ids b = (if is_agent_start b then [nullish (b_id b) []] else [])"

definition entry_blocks :: "TranscriptLine \<Rightarrow> ContentBlock list" where
  "entry_blocks entry =
     (case Option.bind (l_message entry) m_content of Some (Blocks bs) \<Rightarrow> bs | _ \<Rightarrow> [])"

definition line_blocks :: "(string \<Rightarrow> TranscriptLine option) \<Rightarrow> string \<Rightarrow> ContentBlock list" where
  "line_blocks jsonParse line =
     (if trim line = [] then []
      else (case jsonParse line of None \<Rightarrow> [] | Some entry \<Rightarrow> entry_blocks entry))"

definition tool_start_ids :: "(string \<Rightarrow> TranscriptLine option) \<Rightarrow> string list \<Rightarrow> string list" where
  "tool_start_ids jsonParse ls =
     concat (map (\<lambda>l. concat (map block_tool_ids (line_blocks jsonParse l))) ls)"

definition agent_start_ids :: "(string \<Rightarrow> TranscriptLine option) \<Rightarrow> string list \<Rightarrow> string list" where
  "agent_start_ids jsonParse ls =
     concat (map (\<lambda>l. concat (map block_agent_ids (line_blocks jsonParse l))) ls)"

text \<open>In every entry of a map the id is the key.\<close>

definition ids_agree :: "(string \<times> ToolEntry) list \<Rightarrow> bool" where
  "ids_agree m = list_all (\<lambda>(k, v). t_id v = k) m"

definition agent_ids_agree :: "(string \<times> AgentEntry) list \<Rightarrow> bool" where
  "agent_ids_agree m = list_all (\<lambda>(k, v). a_id v = k) m"

text \<open>
  A sample transcript: 21 Read starts, a line cut short, 11 Task starts. \<open>sample_jsonParse\<close>
  is \<open>JSON.parse\<close> on the lines of that shape and fails on every other line.
\<close>

definition use_id :: "string \<Rightarrow> nat \<Rightarrow> string" where
  "use_id n i = n @ ''_'' @ show_nat i"

definition use_line :: "string \<Rightarrow> nat \<Rightarrow> string" where
  \<open>use_line n i =
     ''{"type":"assistant","message":{"content":[{"type":"tool_use","id":"'' @ use_id n i @
     ''","name":"'' @ n @ ''"}]}}''\<close>

definition use_entry :: "string \<Rightarrow> nat \<Rightarrow> TranscriptLine" where
  "use_entry n i =
     \<lparr> l_type = Some ''assistant'', l_timestamp = None,
       l_message = Some \<lparr> m_content = Some (Blocks
         [\<lparr> b_type = ''tool_use'', b_id = Some (use_id n i), b_name = Some n, b_text = None,
            b_input = None, b_tool_use_id = None, b_is_error = None \<rparr>]) \<rparr> \<rparr>"

definition sample_jsonParse :: "string \<Rightarrow> TranscriptLine option" where
  "sample_jsonParse line =
     map_option (\<lambda>(n, i). use_entry n i)
       (find (\<lambda>(n, i). line = use_line n i) (List.product [''Read'', ''Task''] [0..<25]))"

definition sample_clock :: "nat \<Rightarrow> int" where
  "sample_clock k = 1767240000000 + int k"

definition cut_line :: string where
  \<open>cut_line = ''{"type":"assis''\<close>

definition sample_lines :: "string list" where
  "sample_lines =
     map (use_line ''Read'') [0..<21] @ [cut_line] @ map (use_line ''Task'') [0..<11]"

text \<open>
  A state in which the tool \<open>toolu_1\<close> is completed, and a later entry that carries one
  more \<open>tool_result\<close> block for it.
\<close>

definition done_tool :: ToolEntry where
  "done_tool =
     \<lparr> t_id = ''toolu_1'', t_name = ''Read'', t_target = Some ''/tmp/a.txt'',
       t_status = Completed, t_startTime = Date 1767240000000,
       t_endTime = Some (Date 1767240001000) \<rparr>"

definition done_state :: acc where
  "done_state =
     \<lparr> toolMap = [(''toolu_1'', done_tool)], agentMap = [], latestTodos = [],
       resultSessionStart = Some (Date 1767240000000), userMessages = [], clockReads = 0 \<rparr>"

text \<open>The same state with a running agent under the id of the finished tool.\<close>

definition running_agent :: AgentEntry where
  "running_agent =
     \<lparr> a_id = ''toolu_1'', a_type = ''unknown'', a_model = None, a_description = None,
       a_status = AgentRunning, a_startTime = Date 1767240001500, a_endTime = None \<rparr>"

definition shared_state :: acc where
  "shared_state = done_state\<lparr> agentMap := [(''toolu_1'', running_agent)] \<rparr>"

definition duplicate_result :: ContentBlock where
  "duplicate_result =
     \<lparr> b_type = ''tool_result'', b_id = None, b_name = None, b_text = None, b_input = None,
       b_tool_use_id = Some ''toolu_1'', b_is_error = None \<rparr>"

definition duplicate_entry :: TranscriptLine where
  "duplicate_entry =
     \<lparr> l_type = Some ''user'', l_timestamp = Some ''2026-01-01T05:00:00.000Z'',
       l_message = Some \<lparr> m_content = Some (Blocks [duplicate_result]) \<rparr> \<rparr>"

section \<open>Merging the two responses\<close>

lemma mergeApiResponses_both:
  "mergeApiResponses (Some p) (Some s) =
     Some \<lparr> five_hour = (if five_hour p \<noteq> None then five_hour p else five_hour s),
            seven_day = (if seven_day p \<noteq> None then seven_day p else seven_day s),
            model_quotas = (if model_quotas p \<noteq> None then model_quotas p else model_quotas s),
            max_plan_type =
              (if max_plan_type p \<noteq> None then max_plan_type p else max_plan_type s),
            compaction_buffer =
              (if compaction_buffer p \<noteq> None then compaction_buffer p
               else compaction_buffer s),
            tokens_per_window =
              (if tokens_per_window p \<noteq> None then tokens_per_window p
               else tokens_per_window s) \<rparr>"
  by (auto simp: mergeApiResponses_def nullish_opt_def split: option.splits)

lemma mergeApiResponses_one:
  "mergeApiResponses (Some p) None = Some p" "mergeApiResponses None (Some s) = Some s"
  by (simp_all add: mergeApiResponses_def)

lemma getUsage_returned_merged:
  assumes "readCache (cache w) (now dp) = None"
    and "readCredentials w (now dp) = Some cr"
    and "getPlanName (cr_subscriptionType cr) True = Some plan"
    and "mergeApiResponses (fetchApi dp (cr_accessToken cr) (cr_organizationUuid cr))
           (fetchUsageLimits dp (cr_accessToken cr) (cr_organizationUuid cr)) = Some m"
  shows "returned (getUsage nd dp w) = Some (parseResponse nd plan cr (now dp) m)"
  using assms by (simp add: getUsage_def fetchUsage_def Let_def)

text \<open>
  C1. \<open>getUsage\<close> hands the legacy endpoint's response and the enhanced endpoint's
  response to \<open>mergeApiResponses\<close>, the legacy one first, and parses what comes back. When
  both endpoints respond, the merged response has, for each of the fields five_hour,
  seven_day, model_quotas, max_plan_type, compaction_buffer and tokens_per_window, the
  legacy endpoint's value whenever that value is present and the enhanced endpoint's value
  otherwise; when exactly one endpoint responded, the merged response is that response.
\<close>

theorem getUsage_merge_prefers_legacy:
  "readCache (cache w) (now dp) = None \<and> readCredentials w (now dp) = Some cr \<and>
   getPlanName (cr_subscriptionType cr) True = Some plan \<longrightarrow>
     (fetchApi dp (cr_accessToken cr) (cr_organizationUuid cr) = Some p \<and>
      fetchUsageLimits dp (cr_accessToken cr) (cr_organizationUuid cr) = Some s \<longrightarrow>
        returned (getUsage nd dp w) =
          Some (parseResponse nd plan cr (now dp)
            \<lparr> five_hour = (if five_hour p \<noteq> None then five_hour p else five_hour s),
              seven_day = (if seven_day p \<noteq> None then seven_day p else seven_day s),
              model_quotas =
                (if model_quotas p \<noteq> None then model_quotas p else model_quotas s),
              max_plan_type =
                (if max_plan_type p \<noteq> None then max_plan_type p else max_plan_type s),
              compaction_buffer =
                (if compaction_buffer p \<noteq> None then compaction_buffer p
                 else compaction_buffer s),
              tokens_per_window =
                (if tokens_per_window p \<noteq> None then tokens_per_window p
                 else tokens_per_window s) \<rparr>)) \<and>
     (fetchApi dp (cr_accessToken cr) (cr_organizationUuid cr) = Some p \<and>
      fetchUsageLimits dp (cr_accessToken cr) (cr_organizationUuid cr) = None \<longrightarrow>
        returned (getUsage nd dp w) = Some (parseResponse nd plan cr (now dp) p)) \<and>
     (fetchApi dp (cr_accessToken cr) (cr_organizationUuid cr) = None \<and>
      fetchUsageLimits dp (cr_accessToken cr) (cr_organizationUuid cr) = Some s \<longrightarrow>
        returned (getUsage nd dp w) = Some (parseResponse nd plan cr (now dp) s))"
proof (intro impI, elim conjE)
  assume h: "readCache (cache w) (now dp) = None" "readCredentials w (now dp) = Some cr"
    "getPlanName (cr_subscriptionType cr) True = Some plan"
  note ret = getUsage_returned_merged [OF h, of _ nd]
  let ?legacy = "fetchApi dp (cr_accessToken cr) (cr_organizationUuid cr)"
  let ?enhanced = "fetchUsageLimits dp (cr_accessToken cr) (cr_organizationUuid cr)"
  have both: "returned (getUsage nd dp w) =
      Some (parseResponse nd plan cr (now dp)
        \<lparr> five_hour = (if five_hour p \<noteq> None then five_hour p else five_hour s),
          seven_day = (if seven_day p \<noteq> None then seven_day p else seven_day s),
          model_quotas = (if model_quotas p \<noteq> None then model_quotas p else model_quotas s),
          max_plan_type =
            (if max_plan_type p \<noteq> None then max_plan_type p else max_plan_type s),
          compaction_buffer =
            (if compaction_buffer p \<noteq> None then compaction_buffer p
             else compaction_buffer s),
          tokens_per_window =
            (if tokens_per_window p \<noteq> None then tokens_per_window p
             else tokens_per_window s) \<rparr>)"
    if "?legacy = Some p \<and> ?enhanced = Some s"
    by (rule ret) (simp only: that mergeApiResponses_both)
  have legacy: "returned (getUsage nd dp w) = Some (parseResponse nd plan cr (now dp) p)"
    if "?legacy = Some p \<and> ?enhanced = None"
    by (rule ret) (simp only: that mergeApiResponses_one)
  have enhanced: "returned (getUsage nd dp w) = Some (parseResponse nd plan cr (now dp) s)"
    if "?legacy = None \<and> ?enhanced = Some s"
    by (rule ret) (simp only: that mergeApiResponses_one)
  from both legacy enhanced
  show "(?legacy = Some p \<and> ?enhanced = Some s \<longrightarrow>
        returned (getUsage nd dp w) =
          Some (parseResponse nd plan cr (now dp)
            \<lparr> five_hour = (if five_hour p \<noteq> None then five_hour p else five_hour s),
              seven_day = (if seven_day p \<noteq> None then seven_day p else seven_day s),
              model_quotas =
                (if model_quotas p \<noteq> None then model_quotas p else model_quotas s),
              max_plan_type =
                (if max_plan_type p \<noteq> None then max_plan_type p else max_plan_type s),
              compaction_buffer =
                (if compaction_buffer p \<noteq> None then compaction_buffer p
                 else compaction_buffer s),
              tokens_per_window =
                (if tokens_per_window p \<noteq> None then tokens_per_window p
                 else tokens_per_window s) \<rparr>)) \<and>
     (?legacy = Some p \<and> ?enhanced = None \<longrightarrow>
        returned (getUsage nd dp w) = Some (parseResponse nd plan cr (now dp) p)) \<and>
     (?legacy = None \<and> ?enhanced = Some s \<longrightarrow>
        returned (getUsage nd dp w) = Some (parseResponse nd plan cr (now dp) s))"
    by blast
qed

lemma sample_readCredentials:
  "readCredentials sample_world (now sample_deps) =
     Some \<lparr> cr_accessToken = ''token'', cr_subscriptionType = ''max'',
            cr_organizationUuid = None, cr_rateLimitTier = None \<rparr>"
  by (simp add: readCredentials_def resolveCredentialsData_def sample_world_def
      sample_credentials_def oauth_token_def truthy_str_def nullish_def sample_deps_def)

lemma sample_plan: "getPlanName ''max'' True = Some ''Max''"
  by (simp add: getPlanName_def toLowerCase_def lower_char_def)

theorem getUsage_merge_prefers_legacy_witness:
  "\<exists>d. returned (getUsage sample_newDate sample_deps sample_world) = Some d \<and>
       fiveHour d = Some (Fin 100) \<and> sevenDay d = Some (Fin 0) \<and>
       fiveHourResetAt d = Some 1767243600000"
proof -
  let ?cr = "\<lparr> cr_accessToken = ''token'', cr_subscriptionType = ''max'',
              cr_organizationUuid = None, cr_rateLimitTier = None \<rparr>"
  have h: "readCache (cache sample_world) (now sample_deps) = None \<and>
      readCredentials sample_world (now sample_deps) = Some ?cr \<and>
      getPlanName (cr_subscriptionType ?cr) True = Some ''Max''"
    by (simp add: sample_readCredentials sample_plan) (simp add: sample_world_def readCache_def)
  have f: "fetchApi sample_deps (cr_accessToken ?cr) (cr_organizationUuid ?cr) =
        Some sample_legacy \<and>
      fetchUsageLimits sample_deps (cr_accessToken ?cr) (cr_organizationUuid ?cr) =
        Some sample_enhanced"
    by (simp add: sample_deps_def)
  from getUsage_merge_prefers_legacy
         [where w = sample_world and dp = sample_deps and cr = ?cr and plan = "''Max''"
            and p = sample_legacy and s = sample_enhanced and nd = sample_newDate] h f
  have r: "returned (getUsage sample_newDate sample_deps sample_world) =
      Some (parseResponse sample_newDate ''Max'' ?cr (now sample_deps)
        \<lparr> five_hour =
            (if five_hour sample_legacy \<noteq> None then five_hour sample_legacy
             else five_hour sample_enhanced),
          seven_day =
            (if seven_day sample_legacy \<noteq> None then seven_day sample_legacy
             else seven_day sample_enhanced),
          model_quotas =
            (if model_quotas sample_legacy \<noteq> None then model_quotas sample_legacy
             else model_quotas sample_enhanced),
          max_plan_type =
            (if max_plan_type sample_legacy \<noteq> None then max_plan_type sample_legacy
             else max_plan_type sample_enhanced),
          compaction_buffer =
            (if compaction_buffer sample_legacy \<noteq> None then compaction_buffer sample_legacy
             else compaction_buffer sample_enhanced),
          tokens_per_window =
            (if tokens_per_window sample_legacy \<noteq> None then tokens_per_window sample_legacy
             else tokens_per_window sample_enhanced) \<rparr>)"
    by blast
  show ?thesis
    unfolding r
    by (simp add: parseResponse_def Let_def sample_legacy_def sample_enhanced_def
        parseUtilization_def parseDate_def sample_newDate_def)
qed

section \<open>Utilization values\<close>

lemma round_clamp_bounds:
  "0 \<le> \<lfloor>max 0 (min 100 (x::real)) + 1 / 2\<rfloor> \<and> \<lfloor>max 0 (min 100 x) + 1 / 2\<rfloor> \<le> 100"
proof -
  let ?c = "max 0 (min 100 x)"
  have "0 \<le> ?c" "?c \<le> 100" by auto
  then have "0 \<le> \<lfloor>?c + 1 / 2\<rfloor>" "\<lfloor>?c + 1 / 2\<rfloor> \<le> 100" by linarith+
  then show ?thesis by simp
qed

lemma parseUtilization_Fin:
  "parseUtilization (Some (Fin x)) = Some (Fin (of_int \<lfloor>max 0 (min 100 x) + 1 / 2\<rfloor>))"
  by (simp add: parseUtilization_def)

lemma valid_Fin_of_int: "0 \<le> k \<Longrightarrow> k \<le> 100 \<Longrightarrow> valid_utilization (Some (Fin (of_int k)))"
  by (simp add: valid_utilization_def)

lemma valid_parseUtilization: "valid_utilization (parseUtilization v)"
proof (cases v)
  case None
  then show ?thesis by (simp add: parseUtilization_def valid_utilization_def)
next
  case (Some n)
  show ?thesis
  proof (cases n)
    case (Fin x)
    have "0 \<le> \<lfloor>max 0 (min 100 x) + 1 / 2\<rfloor>" "\<lfloor>max 0 (min 100 x) + 1 / 2\<rfloor> \<le> 100"
      using round_clamp_bounds [of x] by simp_all
    then have "valid_utilization (Some (Fin (of_int \<lfloor>max 0 (min 100 x) + 1 / 2\<rfloor>)))"
      by (rule valid_Fin_of_int)
    with Some Fin show ?thesis
      by (simp only: parseUtilization_Fin)
  qed (simp_all add: Some parseUtilization_def valid_utilization_def)
qed

lemma valid_parseModelQuotas:
  "list_all valid_utilization (map utilization (parseModelQuotas nd qs))"
  by (cases qs)
     (simp_all add: parseModelQuotas_def parseModelQuota_def list_all_iff valid_parseUtilization)

lemma valid_parseResponse: "utilizations_valid (parseResponse nd plan cr t m)"
  using valid_parseModelQuotas [of nd "model_quotas m"]
  by (simp add: utilizations_valid_def stored_utilizations_def parseResponse_def Let_def
      valid_parseUtilization)

lemma valid_failureResult: "utilizations_valid (failureResult plan)"
  by (simp add: utilizations_valid_def stored_utilizations_def failureResult_def
      valid_utilization_def)

lemma stored_refreshCountdowns:
  "stored_utilizations (refreshCountdowns d t) = stored_utilizations d"
  by (simp add: refreshCountdowns_def stored_utilizations_def Let_def split: option.splits)

lemma valid_json_number: "valid_utilization u \<Longrightarrow> valid_utilization (json_number u)"
  by (auto simp: valid_utilization_def json_number_def split: option.splits number.splits)

lemma valid_jsonStored: "utilizations_valid d \<Longrightarrow> utilizations_valid (jsonStored d)"
  by (cases "modelQuotas d")
     (auto simp: utilizations_valid_def stored_utilizations_def jsonStored_def json_quota_def
        list_all_iff valid_json_number)

lemma valid_run_steps:
  "cache_valid f \<Longrightarrow> utilizations_valid (data r) \<Longrightarrow> cache_valid (run_steps r sts f)"
proof (induction sts arbitrary: f)
  case Nil
  then show ?case by simp
next
  case (Cons st sts)
  from Cons.prems have "cache_valid (fs_apply r st f)"
    by (cases st) (simp_all add: cache_valid_def)
  with Cons show ?case by simp
qed

lemma valid_writeCache:
  "cache_valid f \<Longrightarrow> utilizations_valid d \<Longrightarrow> cache_valid (writeCache lib fl f d ts)"
  unfolding writeCache_def
  by (rule valid_run_steps) (simp_all add: written_record_def valid_jsonStored)

lemma readCache_Some: "readCache f t = Some d \<Longrightarrow> \<exists>r. f = Stored r \<and> data r = d"
  by (auto simp: readCache_def Let_def split: cache_file.splits if_splits)

lemma valid_fetchUsage:
  assumes "cache_valid (cache w)"
  shows "cache_valid (cache_after (fetchUsage nd dp w))"
    and "returned (fetchUsage nd dp w) = Some d \<Longrightarrow> utilizations_valid d"
  using assms
  by (auto simp: fetchUsage_def Let_def valid_writeCache valid_parseResponse valid_failureResult
      split: option.splits)

lemma valid_getUsage:
  assumes "cache_valid (cache w)"
  shows "cache_valid (cache_after (getUsage nd dp w))"
    and "returned (getUsage nd dp w) = Some d \<Longrightarrow> utilizations_valid d"
proof -
  show "cache_valid (cache_after (getUsage nd dp w))"
    using assms valid_fetchUsage(1) [OF assms]
    by (simp add: getUsage_def split: option.splits)
  show "returned (getUsage nd dp w) = Some d \<Longrightarrow> utilizations_valid d"
  proof (cases "readCache (cache w) (now dp)")
    case None
    assume "returned (getUsage nd dp w) = Some d"
    with None valid_fetchUsage(2) [OF assms] show ?thesis by (simp add: getUsage_def)
  next
    case (Some c)
    assume r: "returned (getUsage nd dp w) = Some d"
    from readCache_Some [OF Some] assms have "utilizations_valid c"
      by (auto simp: cache_valid_def)
    with r Some show ?thesis
      by (auto simp: getUsage_def utilizations_valid_def stored_refreshCountdowns)
  qed
qed

text \<open>
  C2. \<open>parseUtilization\<close> maps an absent input and a non-finite one (NaN, either infinity)
  to null, and a finite input \<open>x\<close> to an integer from 0 to 100, the rounding of \<open>x\<close> clamped
  to that range: 150 gives 100, -5 gives 0, NaN gives null and 0 gives 0, not null.
  Consequently every utilization stored in a \<open>UsageData\<close> is null or an integer from 0 to
  100: \<open>getUsage\<close> returns only such data and leaves only such data in the cache slot, as
  long as the slot it found held such data (or nothing).
\<close>

theorem parseUtilization_clamps:
  "parseUtilization None = None \<and>
   parseUtilization (Some NaN) = None \<and>
   parseUtilization (Some PosInf) = None \<and>
   parseUtilization (Some NegInf) = None \<and>
   (\<exists>k. 0 \<le> k \<and> k \<le> 100 \<and> k = \<lfloor>max 0 (min 100 x) + 1 / 2\<rfloor> \<and>
        parseUtilization (Some (Fin x)) = Some (Fin (of_int k))) \<and>
   parseUtilization (Some (Fin 150)) = Some (Fin 100) \<and>
   parseUtilization (Some (Fin (- 5))) = Some (Fin 0) \<and>
   parseUtilization (Some (Fin 0)) = Some (Fin 0) \<and>
   (cache_valid (cache w) \<longrightarrow>
      cache_valid (cache_after (getUsage nd dp w)) \<and>
      (\<forall>d. returned (getUsage nd dp w) = Some d \<longrightarrow> utilizations_valid d))"
proof -
  have specials: "parseUtilization None = None" "parseUtilization (Some NaN) = None"
    "parseUtilization (Some PosInf) = None" "parseUtilization (Some NegInf) = None"
    by (simp_all add: parseUtilization_def)
  have finite: "\<exists>k. 0 \<le> k \<and> k \<le> 100 \<and> k = \<lfloor>max 0 (min 100 x) + 1 / 2\<rfloor> \<and>
      parseUtilization (Some (Fin x)) = Some (Fin (of_int k))"
    using round_clamp_bounds [of x] parseUtilization_Fin [of x] by blast
  have examples: "parseUtilization (Some (Fin 150)) = Some (Fin 100)"
    "parseUtilization (Some (Fin (- 5))) = Some (Fin 0)"
    "parseUtilization (Some (Fin 0)) = Some (Fin 0)"
    by (simp_all add: parseUtilization_def)
  have stored: "cache_valid (cache w) \<longrightarrow>
      cache_valid (cache_after (getUsage nd dp w)) \<and>
      (\<forall>d. returned (getUsage nd dp w) = Some d \<longrightarrow> utilizations_valid d)"
    using valid_getUsage by blast
  from specials finite examples stored show ?thesis by blast
qed

theorem parseUtilization_clamps_witness:
  "cache_valid (cache sample_world) \<and>
   cache_valid (cache_after (getUsage sample_newDate sample_deps sample_world)) \<and>
   (\<exists>k. 0 \<le> k \<and> k \<le> 100 \<and> parseUtilization (Some (Fin (85 / 2))) = Some (Fin (of_int k)))"
proof -
  have h: "cache_valid (cache sample_world)"
    by (simp add: sample_world_def cache_valid_def)
  from parseUtilization_clamps
         [where x = "85 / 2" and w = sample_world and nd = sample_newDate and dp = sample_deps] h
  show ?thesis by blast
qed

section \<open>The cache slot and its time to live\<close>



lemma getUsage_hit:
  "readCache (cache w) (now dp) = Some c \<Longrightarrow>
   getUsage nd dp w =
     \<lparr> returned = Some (refreshCountdowns c (now dp)), cache_after = cache w, fetches = [] \<rparr>"
  by (simp add: getUsage_def)

lemma getUsage_miss:
  "readCache (cache w) (now dp) = None \<Longrightarrow> getUsage nd dp w = fetchUsage nd dp w"
  by (simp add: getUsage_def)








section \<open>Writing the cache slot\<close>

lemma last_states_during: "last (states_during r sts f) = run_steps r sts f"
  by (induction sts arbitrary: f) (auto simp: neq_Nil_conv elim: states_during.elims)

lemma fetchUsage_writes_once:
  "cache_after (fetchUsage nd dp w) = cache w \<or>
   (\<exists>d. returned (fetchUsage nd dp w) = Some d \<and>
        cache_after (fetchUsage nd dp w) =
          writeCache (fs_writeFileSync w) (write_failure w) (cache w) d (now dp))"
  by (simp add: fetchUsage_def Let_def split: option.splits)

lemma getUsage_writes_once:
  "cache_after (getUsage nd dp w) = cache w \<or>
   (\<exists>d. returned (getUsage nd dp w) = Some d \<and>
        cache_after (getUsage nd dp w) =
          writeCache (fs_writeFileSync w) (write_failure w) (cache w) d (now dp))"
proof (cases "readCache (cache w) (now dp)")
  case None
  then have "getUsage nd dp w = fetchUsage nd dp w" by (rule getUsage_miss)
  with fetchUsage_writes_once [of nd dp w] show ?thesis by simp
next
  case (Some c)
  then show ?thesis by (simp add: getUsage_hit)
qed

lemma first_state_seen: "f \<in> set (states_during r sts f)"
  by (cases sts) simp_all

lemma truncation_seen:
  assumes "lib = OpenTruncate # rest" and "failure \<noteq> Some 0"
  shows "Unparsable \<in> set (writeCache_states lib failure f d ts)"
proof -
  have "\<exists>sts. writeCache_steps lib failure = OpenTruncate # sts"
  proof (cases failure)
    case None
    with assms(1) show ?thesis by (simp add: writeCache_steps_def)
  next
    case (Some n)
    with assms(2) obtain m where "n = Suc m" by (cases n) auto
    with Some assms(1) show ?thesis by (simp add: writeCache_steps_def)
  qed
  then obtain sts where "writeCache_steps lib failure = OpenTruncate # sts" ..
  then show ?thesis
    using first_state_seen [of Unparsable "written_record d ts" sts]
    by (simp add: writeCache_states_def)
qed

text \<open>
  Against C5 as stated: while \<open>writeCache\<close> replaces a stored success by a failure payload
  through Node's \<open>fs.writeFileSync\<close>, the file at the cache path passes through a state
  that is neither of the two records and does not parse.
\<close>

theorem writeCache_exposes_emptied_file:
  "writeCache_states node_writeFileSync None (Stored success_record)
     (failureResult ''Max'') 1767240000000 =
   [Stored success_record, Unparsable,
    Stored \<lparr> data = failureResult ''Max'', timestamp = Some 1767240000000 \<rparr>]"
  by (simp add: writeCache_states_def writeCache_steps_def node_writeFileSync_def
      written_record_def jsonStored_def failureResult_def json_number_def)

text \<open>
  C5, amended. Every write of the usage cache slot is a whole-file overwrite in place, one
  \<open>fs.writeFileSync\<close> on the cache path itself with no temporary file and no rename, and
  not an atomic replace: a concurrent reader of the cache file can see every state that
  call takes the file through, so with a \<open>writeFileSync\<close> that empties the file before it
  writes, as Node's does, it can see the emptied file during every write that gets as far
  as opening the file. (Every write: \<open>getUsage\<close> changes the slot by nothing but one
  \<open>writeCache\<close> of the payload it returns.)
\<close>

theorem writeCache_overwrites_in_place:
  "(cache_after (getUsage nd dp w) = cache w \<or>
    (\<exists>d. returned (getUsage nd dp w) = Some d \<and>
         cache_after (getUsage nd dp w) =
           writeCache (fs_writeFileSync w) (write_failure w) (cache w) d (now dp))) \<and>
   writeCache_states lib None f d ts =
     states_during \<lparr> data = jsonStored d, timestamp = Some ts \<rparr> lib f \<and>
   writeCache lib failure f d ts = last (writeCache_states lib failure f d ts) \<and>
   (lib = OpenTruncate # rest \<and> failure \<noteq> Some 0 \<longrightarrow>
      Unparsable \<in> set (writeCache_states lib failure f d ts))"
proof -
  have "writeCache_states lib None f d ts =
      states_during \<lparr> data = jsonStored d, timestamp = Some ts \<rparr> lib f"
    by (simp add: writeCache_states_def writeCache_steps_def written_record_def)
  moreover have "writeCache lib failure f d ts = last (writeCache_states lib failure f d ts)"
    by (simp add: writeCache_def writeCache_states_def last_states_during)
  ultimately show ?thesis
    using getUsage_writes_once [of nd dp w] truncation_seen [of lib rest failure f d ts]
    by blast
qed

theorem writeCache_overwrites_in_place_witness:
  "node_writeFileSync = OpenTruncate # [WriteText] \<and>
   Unparsable \<in> set (writeCache_states node_writeFileSync None Missing cached_success 5) \<and>
   Unparsable \<in> set (writeCache_states node_writeFileSync (Some 1) (Stored success_record)
                        cached_success 5)"
proof -
  have n: "node_writeFileSync = OpenTruncate # [WriteText]"
    by (simp add: node_writeFileSync_def)
  have "(None :: nat option) \<noteq> Some 0" "Some (1::nat) \<noteq> Some 0" by simp_all
  with n writeCache_overwrites_in_place
         [where lib = node_writeFileSync and rest = "[WriteText]" and failure = None
            and f = Missing and d = cached_success and ts = 5]
       writeCache_overwrites_in_place
         [where lib = node_writeFileSync and rest = "[WriteText]" and failure = "Some 1"
            and f = "Stored success_record" and d = cached_success and ts = 5]
  show ?thesis by blast
qed

section \<open>The context percentage\<close>

text \<open>
  C6. When \<open>context_window.used_percentage\<close> is present, \<open>getContextPercent\<close> returns that
  percentage floored and capped at 100, whatever the window size and the token counts
  are: a finite percentage \<open>x\<close> gives the smaller of 100 and the greatest integer not above
  \<open>x\<close> (42 gives exactly 42, 42.7 gives 42, 150 gives 100), plus infinity gives 100, minus
  infinity and NaN give themselves. When it is absent and the window size is missing or
  zero, the result is 0.
\<close>

theorem getContextPercent_used_percentage:
  "(Option.bind (context_window s) used_percentage = Some (Fin x) \<longrightarrow>
      getContextPercent rnd s = Fin (min 100 (of_int \<lfloor>x\<rfloor>))) \<and>
   (Option.bind (context_window s) used_percentage = Some PosInf \<longrightarrow>
      getContextPercent rnd s = Fin 100) \<and>
   (Option.bind (context_window s) used_percentage = Some NegInf \<longrightarrow>
      getContextPercent rnd s = NegInf) \<and>
   (Option.bind (context_window s) used_percentage = Some NaN \<longrightarrow>
      getContextPercent rnd s = NaN) \<and>
   (used_percentage cw = Some (Fin 42) \<longrightarrow>
      getContextPercent rnd \<lparr> context_window = Some cw \<rparr> = Fin 42) \<and>
   (used_percentage cw \<noteq> None \<longrightarrow>
      getContextPercent rnd
        \<lparr> context_window = Some (cw\<lparr> context_window_size := sz, current_usage := cu \<rparr>) \<rparr> =
      getContextPercent rnd \<lparr> context_window = Some cw \<rparr>) \<and>
   (Option.bind (context_window s) used_percentage = None \<and>
    (Option.bind (context_window s) context_window_size = None \<or>
     Option.bind (context_window s) context_window_size = Some (Fin 0)) \<longrightarrow>
      getContextPercent rnd s = Fin 0)"
  by (auto simp: getContextPercent_def)

theorem getContextPercent_used_percentage_witness:
  "getContextPercent exact (percentage_stdin (Fin (427 / 10))) = Fin 42 \<and>
   getContextPercent exact (percentage_stdin (Fin 150)) = Fin 100 \<and>
   getContextPercent exact (percentage_stdin (Fin 42)) = Fin 42 \<and>
   getContextPercent exact (tokens_stdin None (Fin 5000)) = Fin 0 \<and>
   getContextPercent exact (tokens_stdin (Some (Fin 0)) (Fin 5000)) = Fin 0"
proof -
  have p: "Option.bind (context_window (percentage_stdin (Fin y))) used_percentage =
      Some (Fin y)" for y
    by (simp add: percentage_stdin_def)
  from getContextPercent_used_percentage
         [where s = "percentage_stdin (Fin (427 / 10))" and x = "427 / 10" and rnd = exact]
       p [of "427 / 10"]
  have "getContextPercent exact (percentage_stdin (Fin (427 / 10))) =
      Fin (min 100 (of_int \<lfloor>427 / 10 :: real\<rfloor>))"
    by blast
  then have a: "getContextPercent exact (percentage_stdin (Fin (427 / 10))) = Fin 42"
    by simp
  from getContextPercent_used_percentage
         [where s = "percentage_stdin (Fin 150)" and x = 150 and rnd = exact] p [of 150]
  have "getContextPercent exact (percentage_stdin (Fin 150)) =
      Fin (min 100 (of_int \<lfloor>150 :: real\<rfloor>))"
    by blast
  then have b: "getContextPercent exact (percentage_stdin (Fin 150)) = Fin 100"
    by simp
  from getContextPercent_used_percentage
         [where s = "percentage_stdin (Fin 42)" and x = 42 and rnd = exact] p [of 42]
  have "getContextPercent exact (percentage_stdin (Fin 42)) =
      Fin (min 100 (of_int \<lfloor>42 :: real\<rfloor>))"
    by blast
  then have c: "getContextPercent exact (percentage_stdin (Fin 42)) = Fin 42"
    by simp
  have n: "Option.bind (context_window (tokens_stdin None (Fin 5000))) used_percentage = None \<and>
      Option.bind (context_window (tokens_stdin None (Fin 5000))) context_window_size = None"
    by (simp add: tokens_stdin_def)
  from getContextPercent_used_percentage [where s = "tokens_stdin None (Fin 5000)" and rnd = exact] n
  have d: "getContextPercent exact (tokens_stdin None (Fin 5000)) = Fin 0" by blast
  have z: "Option.bind (context_window (tokens_stdin (Some (Fin 0)) (Fin 5000))) used_percentage
             = None \<and>
      Option.bind (context_window (tokens_stdin (Some (Fin 0)) (Fin 5000))) context_window_size
        = Some (Fin 0)"
    by (simp add: tokens_stdin_def)
  from getContextPercent_used_percentage
         [where s = "tokens_stdin (Some (Fin 0)) (Fin 5000)" and rnd = exact] z
  have e: "getContextPercent exact (tokens_stdin (Some (Fin 0)) (Fin 5000)) = Fin 0" by blast
  from a b c d e show ?thesis by simp
qed

lemma overflow_not_NaN: "overflow rnd x \<noteq> NaN"
  by (simp add: overflow_def Let_def)

lemma js_add_not_NaN: "a \<noteq> NaN \<Longrightarrow> isFinite b \<Longrightarrow> js_add rnd a b \<noteq> NaN"
  by (cases a; cases b) (simp_all add: overflow_not_NaN)

lemma js_div_not_NaN: "a \<noteq> NaN \<Longrightarrow> y \<noteq> 0 \<Longrightarrow> js_div rnd a (Fin y) \<noteq> NaN"
  by (cases a) (simp_all add: overflow_not_NaN signed_inf_def)

lemma js_mul_not_NaN: "a \<noteq> NaN \<Longrightarrow> y \<noteq> 0 \<Longrightarrow> js_mul rnd a (Fin y) \<noteq> NaN"
  by (cases a) (simp_all add: overflow_not_NaN signed_inf_def)

lemma js_floor_not_NaN: "a \<noteq> NaN \<Longrightarrow> js_floor a \<noteq> NaN"
  by (cases a) simp_all

lemma js_min_100: "js_min (Fin 100) a = NaN \<or> js_le (js_min (Fin 100) a) (Fin 100)"
  by (cases a) simp_all

lemma js_min_100_le: "a \<noteq> NaN \<Longrightarrow> js_le (js_min (Fin 100) a) (Fin 100)"
  by (cases a) simp_all

lemma getContextPercent_NaN_or_le:
  "getContextPercent rnd s = NaN \<or> js_le (getContextPercent rnd s) (Fin 100)"
  unfolding getContextPercent_def using js_min_100
  by (auto split: option.splits)

lemma usage_field_finite:
  "stdin_finite s \<Longrightarrow>
     isFinite (usage_field s input_tokens) \<and>
     isFinite (usage_field s cache_creation_input_tokens) \<and>
     isFinite (usage_field s cache_read_input_tokens)"
  by (auto simp: stdin_finite_def usage_field_def nullish_def finite_opt_def
      split: option.splits Option.bind_splits)

lemma isFinite_not_NaN: "isFinite a \<Longrightarrow> a \<noteq> NaN"
  by (cases a) simp_all

lemma getTotalTokens_not_NaN: "stdin_finite s \<Longrightarrow> getTotalTokens rnd s \<noteq> NaN"
  unfolding getTotalTokens_def
  using usage_field_finite [of s]
  by (intro js_add_not_NaN) (auto dest: isFinite_not_NaN)

lemma getContextPercent_finite_le:
  assumes "stdin_finite s"
  shows "js_le (getContextPercent rnd s) (Fin 100)"
proof (cases "Option.bind (context_window s) used_percentage")
  case (Some p)
  with assms have "isFinite p"
    by (auto simp: stdin_finite_def finite_opt_def split: option.splits Option.bind_splits)
  then have "js_floor p \<noteq> NaN" by (cases p) simp_all
  with Some show ?thesis by (simp add: getContextPercent_def js_min_100_le)
next
  case None
  show ?thesis
  proof (cases "Option.bind (context_window s) context_window_size")
    case N2: None
    with None show ?thesis by (simp add: getContextPercent_def)
  next
    case (Some sz)
    with assms have fin: "isFinite sz"
      by (auto simp: stdin_finite_def finite_opt_def split: option.splits Option.bind_splits)
    show ?thesis
    proof (cases "\<not> truthy_num sz \<or> js_le sz (Fin 0)")
      case True
      with None Some show ?thesis by (simp add: getContextPercent_def)
    next
      case False
      with fin obtain y where y: "sz = Fin y" "y \<noteq> 0" by (cases sz) auto
      have "js_floor (js_mul rnd (js_div rnd (getTotalTokens rnd s) sz) (Fin 100)) \<noteq> NaN"
        unfolding y
        by (intro js_floor_not_NaN js_mul_not_NaN js_div_not_NaN getTotalTokens_not_NaN assms y)
           simp
      with None Some False show ?thesis
        by (simp add: getContextPercent_def js_min_100_le)
    qed
  qed
qed

text \<open>
  Against C10 as stated: a payload whose window size and input token count are both
  infinite (the JSON number \<open>1e999\<close> parses to Infinity) makes the fallback branch divide
  infinity by infinity; the result is NaN, which is not at most 100.
\<close>

theorem getContextPercent_infinite_tokens:
  "getContextPercent exact (tokens_stdin (Some PosInf) PosInf) = NaN \<and>
   \<not> js_le (getContextPercent exact (tokens_stdin (Some PosInf) PosInf)) (Fin 100)"
  by (simp add: getContextPercent_def getTotalTokens_def usage_field_def nullish_def
      tokens_stdin_def)

text \<open>
  C10, amended. For every stdin payload the value of \<open>getContextPercent\<close> is NaN or at most
  100, and it is at most 100 whenever every number present in the payload is finite: both
  the \<open>used_percentage\<close> branch and the token branch cap at 100. The bound is one-sided:
  neither branch clamps at 0, a \<open>used_percentage\<close> of -5 giving -5 and a token count of -50
  on a window of 100 giving -50.
\<close>

theorem getContextPercent_at_most_100:
  "(getContextPercent rnd s = NaN \<or> js_le (getContextPercent rnd s) (Fin 100)) \<and>
   (stdin_finite s \<longrightarrow> js_le (getContextPercent rnd s) (Fin 100)) \<and>
   (Option.bind (context_window s) used_percentage = Some (Fin (- 5)) \<longrightarrow>
      getContextPercent rnd s = Fin (- 5)) \<and>
   getContextPercent exact (tokens_stdin (Some (Fin 100)) (Fin (- 50))) = Fin (- 50)"
proof -
  have "getContextPercent exact (tokens_stdin (Some (Fin 100)) (Fin (- 50))) = Fin (- 50)"
    by (simp add: getContextPercent_def getTotalTokens_def usage_field_def nullish_def
        tokens_stdin_def overflow_def exact_def MAX_VALUE_def)
  moreover have "Option.bind (context_window s) used_percentage = Some (Fin (- 5)) \<longrightarrow>
      getContextPercent rnd s = Fin (- 5)"
    by (simp add: getContextPercent_def)
  ultimately show ?thesis
    using getContextPercent_NaN_or_le [of rnd s] getContextPercent_finite_le [of s rnd]
    by blast
qed

theorem getContextPercent_at_most_100_witness:
  "stdin_finite (tokens_stdin (Some (Fin 200000)) (Fin 50000)) \<and>
   js_le (getContextPercent exact (tokens_stdin (Some (Fin 200000)) (Fin 50000))) (Fin 100) \<and>
   stdin_finite percent_stdin \<and>
   js_le (getContextPercent exact percent_stdin) (Fin 100)"
proof -
  have f: "stdin_finite (tokens_stdin (Some (Fin 200000)) (Fin 50000))"
    "stdin_finite percent_stdin"
    by (simp_all add: stdin_finite_def tokens_stdin_def percent_stdin_def finite_opt_def)
  from getContextPercent_at_most_100
         [where s = "tokens_stdin (Some (Fin 200000)) (Fin 50000)" and rnd = exact]
       getContextPercent_at_most_100 [where s = percent_stdin and rnd = exact] f
  show ?thesis by blast
qed

section \<open>Expired credentials\<close>

text \<open>
  Against C7 as stated: with a token that expires at the very instant of the clock but a
  success stored ten seconds earlier in the cache slot, \<open>getUsage\<close> does not return null;
  it returns the cached payload.
\<close>

theorem getUsage_expired_but_cached:
  "resolveCredentialsData (expired_world (Stored success_record)) = Some expired_credentials \<and>
   Option.bind (claudeAiOauth expired_credentials) expiresAt = Some (now sample_deps) \<and>
   returned (getUsage sample_newDate sample_deps (expired_world (Stored success_record))) =
     Some (cached_success\<lparr> fiveHourResetIn := Some ''1h'' \<rparr>)"
  by (simp add: getUsage_def readCache_def cache_age_def expired_world_def cached_success_def
      sample_deps_def success_record_def expired_credentials_def resolveCredentialsData_def
      oauth_token_def truthy_str_def CACHE_TTL_MS_def refreshCountdowns_def
      formatTimeToReset_def Let_def digit_char_def)

text \<open>
  C7, amended. Whenever the cache slot holds no valid record, for every resolved
  credential set whose \<open>expiresAt\<close> is less than or equal to the clock value, equality
  included, \<open>getUsage\<close> returns null, silently: no failure payload, no fetch, and the cache
  slot untouched. The boundary is inclusive: a token with an \<open>expiresAt\<close> above the clock
  value is not rejected as expired.
\<close>

theorem getUsage_expired_credentials:
  "(readCache (cache w) (now dp) = None \<and> resolveCredentialsData w = Some d \<and>
    Option.bind (claudeAiOauth d) expiresAt = Some e \<and> e \<le> now dp \<longrightarrow>
      getUsage nd dp w = \<lparr> returned = None, cache_after = cache w, fetches = [] \<rparr>) \<and>
   (resolveCredentialsData w = Some d \<and> truthy_str (oauth_token d) \<and>
    Option.bind (claudeAiOauth d) expiresAt = Some e \<and> now dp < e \<longrightarrow>
      readCredentials w (now dp) \<noteq> None)"
  by (auto simp: getUsage_def fetchUsage_def readCredentials_def Let_def truthy_str_def
      split: option.splits)

theorem getUsage_expired_credentials_witness:
  "getUsage sample_newDate sample_deps (expired_world Missing) =
     \<lparr> returned = None, cache_after = Missing, fetches = [] \<rparr> \<and>
   readCredentials sample_world (now sample_deps) \<noteq> None"
proof -
  have h1: "readCache (cache (expired_world Missing)) (now sample_deps) = None \<and>
      resolveCredentialsData (expired_world Missing) = Some expired_credentials \<and>
      Option.bind (claudeAiOauth expired_credentials) expiresAt = Some 1767240000000 \<and>
      1767240000000 \<le> now sample_deps"
    by (simp add: readCache_def expired_world_def resolveCredentialsData_def
        expired_credentials_def oauth_token_def truthy_str_def sample_deps_def)
  from getUsage_expired_credentials
         [where w = "expired_world Missing" and dp = sample_deps and d = expired_credentials
            and e = 1767240000000 and nd = sample_newDate] h1
  have a: "getUsage sample_newDate sample_deps (expired_world Missing) =
      \<lparr> returned = None, cache_after = cache (expired_world Missing), fetches = [] \<rparr>"
    by blast
  have h2: "resolveCredentialsData sample_world = Some sample_credentials \<and>
      truthy_str (oauth_token sample_credentials) \<and>
      Option.bind (claudeAiOauth sample_credentials) expiresAt = Some 1767250000000 \<and>
      now sample_deps < 1767250000000"
    by (simp add: sample_world_def resolveCredentialsData_def sample_credentials_def
        oauth_token_def truthy_str_def sample_deps_def)
  from getUsage_expired_credentials
         [where w = sample_world and dp = sample_deps and d = sample_credentials
            and e = 1767250000000] h2
  have b: "readCredentials sample_world (now sample_deps) \<noteq> None"
    by blast
  from a b show ?thesis by (simp add: expired_world_def)
qed

section \<open>The transcript accumulator: the order of the maps\<close>

lemma keys_map_set:
  "map fst (map_set k v m) = (if k \<in> fst ` set m then map fst m else map fst m @ [k])"
  by (induction m) force+

lemma keys_map_modify: "map fst (map_modify k f m) = map fst m"
  by (induction m) auto

lemma keys_tool_use_step:
  "map fst (toolMap (tool_use_step ts b st)) =
     map fst (toolMap st) @ filter (\<lambda>i. i \<notin> fst ` set (toolMap st)) (block_tool_ids b)"
  "map fst (agentMap (tool_use_step ts b st)) =
     map fst (agentMap st) @ filter (\<lambda>i. i \<notin> fst ` set (agentMap st)) (block_agent_ids b)"
  by (auto simp: tool_use_step_def keys_map_set block_tool_ids_def block_agent_ids_def
      is_tool_start_def is_agent_start_def truthy_str_def nullish_def split: option.splits)

lemma keys_tool_result_step:
  "map fst (toolMap (tool_result_step ts b st)) = map fst (toolMap st)"
  "map fst (agentMap (tool_result_step ts b st)) = map fst (agentMap st)"
  by (auto simp: tool_result_step_def keys_map_modify split: option.splits)

lemma keys_processBlock:
  "map fst (toolMap (processBlock ts b st)) =
     map fst (toolMap st) @ filter (\<lambda>i. i \<notin> fst ` set (toolMap st)) (block_tool_ids b)"
  "map fst (agentMap (processBlock ts b st)) =
     map fst (agentMap st) @ filter (\<lambda>i. i \<notin> fst ` set (agentMap st)) (block_agent_ids b)"
  by (simp_all add: processBlock_def keys_tool_result_step keys_tool_use_step)

lemma filter_fresh: "set ids \<inter> S = {} \<Longrightarrow> filter (\<lambda>i. i \<notin> S) ids = ids"
  by (induction ids) auto

lemma tool_keys_processBlocks:
  "distinct (map fst (toolMap st) @ concat (map block_tool_ids bs)) \<Longrightarrow>
   map fst (toolMap (processBlocks ts bs st)) =
     map fst (toolMap st) @ concat (map block_tool_ids bs)"
proof (induction bs arbitrary: st)
  case Nil
  then show ?case by simp
next
  case (Cons b bs)
  let ?ks = "map fst (toolMap st)"
  from Cons.prems have d: "set (block_tool_ids b) \<inter> fst ` set (toolMap st) = {}" by auto
  have step: "map fst (toolMap (processBlock ts b st)) = ?ks @ block_tool_ids b"
    by (simp add: keys_processBlock filter_fresh [OF d])
  from Cons.prems have "distinct (map fst (toolMap (processBlock ts b st)) @
      concat (map block_tool_ids bs))"
    by (simp add: step)
  from Cons.IH [OF this] show ?case by (simp add: step)
qed

lemma agent_keys_processBlocks:
  "distinct (map fst (agentMap st) @ concat (map block_agent_ids bs)) \<Longrightarrow>
   map fst (agentMap (processBlocks ts bs st)) =
     map fst (agentMap st) @ concat (map block_agent_ids bs)"
proof (induction bs arbitrary: st)
  case Nil
  then show ?case by simp
next
  case (Cons b bs)
  let ?ks = "map fst (agentMap st)"
  from Cons.prems have d: "set (block_agent_ids b) \<inter> fst ` set (agentMap st) = {}" by auto
  have step: "map fst (agentMap (processBlock ts b st)) = ?ks @ block_agent_ids b"
    by (simp add: keys_processBlock filter_fresh [OF d])
  from Cons.prems have "distinct (map fst (agentMap (processBlock ts b st)) @
      concat (map block_agent_ids bs))"
    by (simp add: step)
  from Cons.IH [OF this] show ?case by (simp add: step)
qed

lemma tool_keys_processEntry:
  "distinct (map fst (toolMap st) @ concat (map block_tool_ids (entry_blocks entry))) \<Longrightarrow>
   map fst (toolMap (processEntry nd clk entry st)) =
     map fst (toolMap st) @ concat (map block_tool_ids (entry_blocks entry))"
  by (auto simp: processEntry_def entry_blocks_def Let_def tool_keys_processBlocks
      split: option.splits content.splits)

lemma agent_keys_processEntry:
  "distinct (map fst (agentMap st) @ concat (map block_agent_ids (entry_blocks entry))) \<Longrightarrow>
   map fst (agentMap (processEntry nd clk entry st)) =
     map fst (agentMap st) @ concat (map block_agent_ids (entry_blocks entry))"
  by (auto simp: processEntry_def entry_blocks_def Let_def agent_keys_processBlocks
      split: option.splits content.splits)

lemma maps_collectUserMessage:
  "toolMap (collectUserMessage entry st) = toolMap st"
  "agentMap (collectUserMessage entry st) = agentMap st"
  by (simp_all add: collectUserMessage_def Let_def split: option.splits)

lemma tool_keys_processLine:
  "distinct (map fst (toolMap st) @ concat (map block_tool_ids (line_blocks jp l))) \<Longrightarrow>
   map fst (toolMap (processLine jp nd clk l st)) =
     map fst (toolMap st) @ concat (map block_tool_ids (line_blocks jp l))"
  by (auto simp: processLine_def line_blocks_def maps_collectUserMessage tool_keys_processEntry
      split: option.splits)

lemma agent_keys_processLine:
  "distinct (map fst (agentMap st) @ concat (map block_agent_ids (line_blocks jp l))) \<Longrightarrow>
   map fst (agentMap (processLine jp nd clk l st)) =
     map fst (agentMap st) @ concat (map block_agent_ids (line_blocks jp l))"
  by (auto simp: processLine_def line_blocks_def maps_collectUserMessage agent_keys_processEntry
      split: option.splits)

lemma tool_keys_processLines:
  "distinct (map fst (toolMap st) @ tool_start_ids jp ls) \<Longrightarrow>
   map fst (toolMap (processLines jp nd clk ls st)) = map fst (toolMap st) @ tool_start_ids jp ls"
proof (induction ls arbitrary: st)
  case Nil
  then show ?case by (simp add: tool_start_ids_def)
next
  case (Cons l ls)
  let ?new = "concat (map block_tool_ids (line_blocks jp l))"
  have split: "tool_start_ids jp (l # ls) = ?new @ tool_start_ids jp ls"
    by (simp add: tool_start_ids_def)
  from Cons.prems have "distinct (map fst (toolMap st) @ ?new)"
    by (auto simp: split)
  then have step: "map fst (toolMap (processLine jp nd clk l st)) = map fst (toolMap st) @ ?new"
    by (rule tool_keys_processLine)
  from Cons.prems have "distinct (map fst (toolMap (processLine jp nd clk l st)) @
      tool_start_ids jp ls)"
    by (simp add: step split)
  from Cons.IH [OF this] show ?case by (simp add: step split)
qed

lemma agent_keys_processLines:
  "distinct (map fst (agentMap st) @ agent_start_ids jp ls) \<Longrightarrow>
   map fst (agentMap (processLines jp nd clk ls st)) =
     map fst (agentMap st) @ agent_start_ids jp ls"
proof (induction ls arbitrary: st)
  case Nil
  then show ?case by (simp add: agent_start_ids_def)
next
  case (Cons l ls)
  let ?new = "concat (map block_agent_ids (line_blocks jp l))"
  have split: "agent_start_ids jp (l # ls) = ?new @ agent_start_ids jp ls"
    by (simp add: agent_start_ids_def)
  from Cons.prems have "distinct (map fst (agentMap st) @ ?new)"
    by (auto simp: split)
  then have step: "map fst (agentMap (processLine jp nd clk l st)) = map fst (agentMap st) @ ?new"
    by (rule agent_keys_processLine)
  from Cons.prems have "distinct (map fst (agentMap (processLine jp nd clk l st)) @
      agent_start_ids jp ls)"
    by (simp add: step split)
  from Cons.IH [OF this] show ?case by (simp add: step split)
qed


lemma ids_agree_map_set: "ids_agree m \<Longrightarrow> t_id v = k \<Longrightarrow> ids_agree (map_set k v m)"
  by (induction m) (auto simp: ids_agree_def)

lemma ids_agree_map_modify:
  "ids_agree m \<Longrightarrow> (\<And>v. t_id (f v) = t_id v) \<Longrightarrow> ids_agree (map_modify k f m)"
  by (induction m) (auto simp: ids_agree_def)

lemma agent_ids_agree_map_set:
  "agent_ids_agree m \<Longrightarrow> a_id v = k \<Longrightarrow> agent_ids_agree (map_set k v m)"
  by (induction m) (auto simp: agent_ids_agree_def)

lemma agent_ids_agree_map_modify:
  "agent_ids_agree m \<Longrightarrow> (\<And>v. a_id (f v) = a_id v) \<Longrightarrow> agent_ids_agree (map_modify k f m)"
  by (induction m) (auto simp: agent_ids_agree_def)

lemma ids_agree_processBlock:
  "ids_agree (toolMap st) \<Longrightarrow> ids_agree (toolMap (processBlock ts b st))"
  "agent_ids_agree (agentMap st) \<Longrightarrow> agent_ids_agree (agentMap (processBlock ts b st))"
  by (auto simp: processBlock_def tool_use_step_def tool_result_step_def
      intro!: ids_agree_map_set ids_agree_map_modify agent_ids_agree_map_set
        agent_ids_agree_map_modify
      split: option.splits)

lemma ids_agree_processBlocks:
  "ids_agree (toolMap st) \<Longrightarrow> ids_agree (toolMap (processBlocks ts bs st))"
  "agent_ids_agree (agentMap st) \<Longrightarrow> agent_ids_agree (agentMap (processBlocks ts bs st))"
  by (induction bs arbitrary: st) (simp_all add: ids_agree_processBlock)

lemma ids_agree_processLine:
  "ids_agree (toolMap st) \<Longrightarrow> ids_agree (toolMap (processLine jp nd clk l st))"
  "agent_ids_agree (agentMap st) \<Longrightarrow> agent_ids_agree (agentMap (processLine jp nd clk l st))"
  by (auto simp: processLine_def maps_collectUserMessage processEntry_def Let_def
      ids_agree_processBlocks split: option.splits content.splits)

lemma ids_agree_processLines:
  "ids_agree (toolMap st) \<Longrightarrow> ids_agree (toolMap (processLines jp nd clk ls st))"
  "agent_ids_agree (agentMap st) \<Longrightarrow> agent_ids_agree (agentMap (processLines jp nd clk ls st))"
  by (induction ls arbitrary: st) (simp_all add: ids_agree_processLine)

lemma ids_agree_values: "ids_agree m \<Longrightarrow> map t_id (map_values m) = map fst m"
  by (induction m) (auto simp: ids_agree_def map_values_def)

lemma agent_ids_agree_values: "agent_ids_agree m \<Longrightarrow> map a_id (map_values m) = map fst m"
  by (induction m) (auto simp: agent_ids_agree_def map_values_def)

lemma map_slice_last: "map f (slice_last n xs) = slice_last n (map f xs)"
  by (simp add: slice_last_def drop_map)

lemma length_slice_last: "length (slice_last n xs) = min n (length xs)"
  by (simp add: slice_last_def)

lemma tools_retained:
  assumes "distinct (tool_start_ids jp ls)"
  shows "map fst (toolMap (processLines jp nd clk ls initial_acc)) = tool_start_ids jp ls"
    and "map t_id (tools (parseTranscript jp nd clk (Some ls))) = slice_last 20 (tool_start_ids jp ls)"
proof -
  let ?st = "processLines jp nd clk ls initial_acc"
  from assms have "distinct (map fst (toolMap initial_acc) @ tool_start_ids jp ls)"
    by (simp add: initial_acc_def)
  from tool_keys_processLines [OF this]
  show keys: "map fst (toolMap ?st) = tool_start_ids jp ls"
    by (simp add: initial_acc_def)
  have "ids_agree (toolMap ?st)"
    by (rule ids_agree_processLines) (simp add: initial_acc_def ids_agree_def)
  then have "map t_id (map_values (toolMap ?st)) = tool_start_ids jp ls"
    by (simp add: ids_agree_values keys)
  then show "map t_id (tools (parseTranscript jp nd clk (Some ls))) = slice_last 20 (tool_start_ids jp ls)"
    by (simp add: parseTranscript_def finish_def map_slice_last)
qed

lemma agents_retained:
  assumes "distinct (agent_start_ids jp ls)"
  shows "map fst (agentMap (processLines jp nd clk ls initial_acc)) = agent_start_ids jp ls"
    and "map a_id (agents (parseTranscript jp nd clk (Some ls))) = slice_last 10 (agent_start_ids jp ls)"
proof -
  let ?st = "processLines jp nd clk ls initial_acc"
  from assms have "distinct (map fst (agentMap initial_acc) @ agent_start_ids jp ls)"
    by (simp add: initial_acc_def)
  from agent_keys_processLines [OF this]
  show keys: "map fst (agentMap ?st) = agent_start_ids jp ls"
    by (simp add: initial_acc_def)
  have "agent_ids_agree (agentMap ?st)"
    by (rule ids_agree_processLines) (simp add: initial_acc_def agent_ids_agree_def)
  then have "map a_id (map_values (agentMap ?st)) = agent_start_ids jp ls"
    by (simp add: agent_ids_agree_values keys)
  then show "map a_id (agents (parseTranscript jp nd clk (Some ls))) = slice_last 10 (agent_start_ids jp ls)"
    by (simp add: parseTranscript_def finish_def map_slice_last)
qed

text \<open>
  C8. For every input whose tool starts (the \<open>tool_use\<close> blocks with an id and a name other
  than Task and TodoWrite) carry no duplicate id, the map built by the pass holds all of
  them, in the order of discovery: nothing is dropped during the pass. The trimming is
  applied once, after the pass, and keeps the last 20 values of that map; so when there
  are more than 20 tool starts the result holds exactly 20 tool entries, the most recent
  20 in discovery order. Agents (the blocks named Task) are likewise trimmed to the most
  recent 10.
\<close>

theorem parseTranscript_bounded_retention:
  "(distinct (tool_start_ids jp ls) \<longrightarrow>
      map fst (toolMap (processLines jp nd clk ls initial_acc)) = tool_start_ids jp ls \<and>
      tools (parseTranscript jp nd clk (Some ls)) =
        slice_last 20 (map_values (toolMap (processLines jp nd clk ls initial_acc))) \<and>
      map t_id (tools (parseTranscript jp nd clk (Some ls))) =
        slice_last 20 (tool_start_ids jp ls)) \<and>
   (distinct (tool_start_ids jp ls) \<and> 20 < length (tool_start_ids jp ls) \<longrightarrow>
      length (tools (parseTranscript jp nd clk (Some ls))) = 20 \<and>
      map t_id (tools (parseTranscript jp nd clk (Some ls))) =
        drop (length (tool_start_ids jp ls) - 20) (tool_start_ids jp ls)) \<and>
   (distinct (agent_start_ids jp ls) \<longrightarrow>
      map fst (agentMap (processLines jp nd clk ls initial_acc)) = agent_start_ids jp ls \<and>
      agents (parseTranscript jp nd clk (Some ls)) =
        slice_last 10 (map_values (agentMap (processLines jp nd clk ls initial_acc))) \<and>
      map a_id (agents (parseTranscript jp nd clk (Some ls))) =
        slice_last 10 (agent_start_ids jp ls)) \<and>
   (distinct (agent_start_ids jp ls) \<and> 10 < length (agent_start_ids jp ls) \<longrightarrow>
      length (agents (parseTranscript jp nd clk (Some ls))) = 10 \<and>
      map a_id (agents (parseTranscript jp nd clk (Some ls))) =
        drop (length (agent_start_ids jp ls) - 10) (agent_start_ids jp ls))"
proof -
  let ?T = "tools (parseTranscript jp nd clk (Some ls))"
  let ?A = "agents (parseTranscript jp nd clk (Some ls))"
  have trim: "?T = slice_last 20 (map_values (toolMap (processLines jp nd clk ls initial_acc)))"
    "?A = slice_last 10 (map_values (agentMap (processLines jp nd clk ls initial_acc)))"
    by (simp_all add: parseTranscript_def finish_def)
  have t: "map fst (toolMap (processLines jp nd clk ls initial_acc)) = tool_start_ids jp ls \<and>
      map t_id ?T = slice_last 20 (tool_start_ids jp ls)"
    if "distinct (tool_start_ids jp ls)"
    using tools_retained [OF that] by simp
  have a: "map fst (agentMap (processLines jp nd clk ls initial_acc)) = agent_start_ids jp ls \<and>
      map a_id ?A = slice_last 10 (agent_start_ids jp ls)"
    if "distinct (agent_start_ids jp ls)"
    using agents_retained [OF that] by simp
  have t20: "length ?T = 20 \<and>
      map t_id ?T = drop (length (tool_start_ids jp ls) - 20) (tool_start_ids jp ls)"
    if d: "distinct (tool_start_ids jp ls)" and n: "20 < length (tool_start_ids jp ls)"
  proof -
    from t [OF d] have m: "map t_id ?T = slice_last 20 (tool_start_ids jp ls)" by simp
    then have "length (map t_id ?T) = min 20 (length (tool_start_ids jp ls))"
      by (simp only: length_slice_last)
    with n have "length ?T = 20" by simp
    with m show ?thesis by (simp add: slice_last_def)
  qed
  have a10: "length ?A = 10 \<and>
      map a_id ?A = drop (length (agent_start_ids jp ls) - 10) (agent_start_ids jp ls)"
    if d: "distinct (agent_start_ids jp ls)" and n: "10 < length (agent_start_ids jp ls)"
  proof -
    from a [OF d] have m: "map a_id ?A = slice_last 10 (agent_start_ids jp ls)" by simp
    then have "length (map a_id ?A) = min 10 (length (agent_start_ids jp ls))"
      by (simp only: length_slice_last)
    with n have "length ?A = 10" by simp
    with m show ?thesis by (simp add: slice_last_def)
  qed
  from trim t a t20 a10 show ?thesis by blast
qed

lemma sample_tool_starts:
  "tool_start_ids sample_jsonParse sample_lines = map (use_id ''Read'') [0..<21]"
  by code_simp

lemma sample_agent_starts:
  "agent_start_ids sample_jsonParse sample_lines = map (use_id ''Task'') [0..<11]"
  by code_simp

theorem parseTranscript_bounded_retention_witness:
  "distinct (tool_start_ids sample_jsonParse sample_lines) \<and>
   20 < length (tool_start_ids sample_jsonParse sample_lines) \<and>
   length (tools (parseTranscript sample_jsonParse sample_newDate sample_clock
                    (Some sample_lines))) = 20 \<and>
   map t_id (tools (parseTranscript sample_jsonParse sample_newDate sample_clock
                      (Some sample_lines))) = map (use_id ''Read'') [1..<21] \<and>
   distinct (agent_start_ids sample_jsonParse sample_lines) \<and>
   10 < length (agent_start_ids sample_jsonParse sample_lines) \<and>
   map a_id (agents (parseTranscript sample_jsonParse sample_newDate sample_clock
                       (Some sample_lines))) = map (use_id ''Task'') [1..<11]"
proof -
  have dt: "distinct (tool_start_ids sample_jsonParse sample_lines) \<and>
      20 < length (tool_start_ids sample_jsonParse sample_lines)"
    unfolding sample_tool_starts by code_simp
  have da: "distinct (agent_start_ids sample_jsonParse sample_lines) \<and>
      10 < length (agent_start_ids sample_jsonParse sample_lines)"
    unfolding sample_agent_starts by code_simp
  have lt: "drop (length (tool_start_ids sample_jsonParse sample_lines) - 20)
      (tool_start_ids sample_jsonParse sample_lines) = map (use_id ''Read'') [1..<21]"
    unfolding sample_tool_starts by code_simp
  have la: "drop (length (agent_start_ids sample_jsonParse sample_lines) - 10)
      (agent_start_ids sample_jsonParse sample_lines) = map (use_id ''Task'') [1..<11]"
    unfolding sample_agent_starts by code_simp
  from parseTranscript_bounded_retention
         [where jp = sample_jsonParse and ls = sample_lines and nd = sample_newDate
            and clk = sample_clock] dt da
  have "length (tools (parseTranscript sample_jsonParse sample_newDate sample_clock
                    (Some sample_lines))) = 20"
    "map t_id (tools (parseTranscript sample_jsonParse sample_newDate sample_clock
        (Some sample_lines))) =
      drop (length (tool_start_ids sample_jsonParse sample_lines) - 20)
        (tool_start_ids sample_jsonParse sample_lines)"
    "map a_id (agents (parseTranscript sample_jsonParse sample_newDate sample_clock
        (Some sample_lines))) =
      drop (length (agent_start_ids sample_jsonParse sample_lines) - 10)
        (agent_start_ids sample_jsonParse sample_lines)"
    by blast+
  with dt da lt la show ?thesis by simp
qed

section \<open>The transcript accumulator: malformed lines\<close>

lemma processLine_malformed: "jp l = None \<Longrightarrow> processLine jp nd clk l st = st"
  by (simp add: processLine_def)

lemma processLines_filter:
  "processLines jp nd clk (filter (\<lambda>l. jp l \<noteq> None) ls) st = processLines jp nd clk ls st"
  by (induction ls arbitrary: st) (auto simp: processLine_malformed)

lemma processLines_append:
  "processLines jp nd clk (ls @ ls') st = processLines jp nd clk ls' (processLines jp nd clk ls st)"
  by (induction ls arbitrary: st) auto

text \<open>
  C9. \<open>parseTranscript\<close> skips every line on which \<open>JSON.parse\<close> fails and goes on with the
  pass: on every transcript its result is its result on the same transcript with the
  malformed lines removed. In particular a corrupt or cut final line changes nothing.
\<close>

theorem parseTranscript_skips_malformed:
  "parseTranscript jp nd clk (map_option (filter (\<lambda>l. jp l \<noteq> None)) tf) =
     parseTranscript jp nd clk tf \<and>
   (jp bad = None \<longrightarrow>
      parseTranscript jp nd clk (Some (ls @ [bad])) = parseTranscript jp nd clk (Some ls))"
  by (cases tf)
     (simp_all add: parseTranscript_def processLines_filter [simplified] processLines_append
        processLine_malformed)

lemma sample_cut_line: "sample_jsonParse cut_line = None"
  by code_simp

theorem parseTranscript_skips_malformed_witness:
  "sample_jsonParse cut_line = None \<and>
   parseTranscript sample_jsonParse sample_newDate sample_clock
     (Some ([use_line ''Read'' 1, use_line ''Read'' 2] @ [cut_line])) =
   parseTranscript sample_jsonParse sample_newDate sample_clock
     (Some [use_line ''Read'' 1, use_line ''Read'' 2])"
  using parseTranscript_skips_malformed
          [where jp = sample_jsonParse and bad = cut_line and nd = sample_newDate
             and clk = sample_clock and ls = "[use_line ''Read'' 1, use_line ''Read'' 2]"]
        sample_cut_line
  by blast

section \<open>The transcript accumulator: a second result for a finished tool\<close>

lemma restamp_fixed:
  "t_status t = Completed \<Longrightarrow> t_endTime t = Some e \<Longrightarrow>
   (t\<lparr> t_status := s, t_endTime := Some ts \<rparr> = t) = (s = Completed \<and> ts = e)"
  by (cases t) auto

lemma map_modify_fixed:
  "(map_modify k f m = m) = (case map_of m k of None \<Rightarrow> True | Some v \<Rightarrow> f v = v)"
  by (induction m) (auto split: if_splits)

lemma map_of_map_modify_other: "k' \<noteq> k \<Longrightarrow> map_of (map_modify k f m) k' = map_of m k'"
  by (induction m) auto

lemma map_of_map_modify_same: "map_of (map_modify k f m) k = map_option f (map_of m k)"
  by (induction m) auto

lemma complete_fixed:
  "(a\<lparr> a_status := AgentCompleted, a_endTime := Some ts \<rparr> = a) =
   (a_status a = AgentCompleted \<and> a_endTime a = Some ts)"
  by (cases a) auto

lemma acc_maps_eq:
  "(st\<lparr> toolMap := m, agentMap := a \<rparr> = st) = (m = toolMap st \<and> a = agentMap st)"
  by (cases st) auto

lemma processEntry_stamped:
  "l_timestamp entry = Some s \<Longrightarrow> s \<noteq> [] \<Longrightarrow> resultSessionStart st \<noteq> None \<Longrightarrow>
   Option.bind (l_message entry) m_content = Some (Blocks [b]) \<Longrightarrow>
   processEntry nd clk entry st = processBlock (nd s) b st"
  by (auto simp: processEntry_def Let_def truthy_str_def nullish_def)

text \<open>
  Against C4 as stated: in a state where the tool \<open>toolu_1\<close> is completed with an end time,
  one more entry with a \<open>tool_result\<close> block for that id changes the state: the end time
  becomes the timestamp of the new entry.
\<close>

theorem processEntry_duplicate_result_restamps:
  "map_of (toolMap done_state) ''toolu_1'' = Some done_tool \<and>
   t_status done_tool = Completed \<and>
   t_endTime done_tool = Some (Date 1767240001000) \<and>
   processEntry sample_newDate sample_clock duplicate_entry done_state =
     done_state\<lparr> toolMap :=
       [(''toolu_1'', done_tool\<lparr> t_endTime := Some (Date 1767243600000) \<rparr>)] \<rparr> \<and>
   processEntry sample_newDate sample_clock duplicate_entry done_state \<noteq> done_state"
  by (simp add: processEntry_def Let_def truthy_str_def nullish_def duplicate_entry_def
      duplicate_result_def done_state_def done_tool_def sample_newDate_def processBlock_def
      tool_use_step_def tool_result_step_def truthy_flag_def)

text \<open>
  C4, amended. In a state where the tool entry with a given correlation id is completed
  with an end time, one more \<open>tool_result\<close> block with that id changes nothing but the
  entries with that id, which it rewrites: the tool entry's status is taken again from
  the block's \<open>is_error\<close> flag and its end time is overwritten with the timestamp of the
  block's entry, and an agent entry with that id, if there is one, is set completed with
  that end time. So the state is left unchanged exactly when the block carries no error
  flag, its entry's timestamp equals the end time already set, and any agent entry with
  that id is already completed with that same end time; the same holds for \<open>processEntry\<close>
  on a timestamped entry made of that block, once the session start is set.
\<close>

theorem duplicate_tool_result:
  "b_type b = ''tool_result'' \<and> b_tool_use_id b = Some u \<and> u \<noteq> [] \<and>
   map_of (toolMap st) u = Some t \<and> t_status t = Completed \<and> t_endTime t = Some e \<longrightarrow>
     processBlock ts b st =
       st\<lparr> toolMap :=
             map_modify u
               (\<lambda>tool. tool\<lparr> t_status := (if truthy_flag (b_is_error b) then Error
                                            else Completed),
                             t_endTime := Some ts \<rparr>)
               (toolMap st),
           agentMap :=
             map_modify u
               (\<lambda>agent. agent\<lparr> a_status := AgentCompleted, a_endTime := Some ts \<rparr>)
               (agentMap st) \<rparr> \<and>
     map fst (toolMap (processBlock ts b st)) = map fst (toolMap st) \<and>
     map fst (agentMap (processBlock ts b st)) = map fst (agentMap st) \<and>
     (\<forall>k. k \<noteq> u \<longrightarrow>
        map_of (toolMap (processBlock ts b st)) k = map_of (toolMap st) k \<and>
        map_of (agentMap (processBlock ts b st)) k = map_of (agentMap st) k) \<and>
     map_of (toolMap (processBlock ts b st)) u =
       Some (t\<lparr> t_status := (if truthy_flag (b_is_error b) then Error else Completed),
                t_endTime := Some ts \<rparr>) \<and>
     map_of (agentMap (processBlock ts b st)) u =
       map_option (\<lambda>agent. agent\<lparr> a_status := AgentCompleted, a_endTime := Some ts \<rparr>)
         (map_of (agentMap st) u) \<and>
     (processBlock ts b st = st) =
       (ts = e \<and> \<not> truthy_flag (b_is_error b) \<and>
        (\<forall>a. map_of (agentMap st) u = Some a \<longrightarrow>
           a_status a = AgentCompleted \<and> a_endTime a = Some ts)) \<and>
     (l_timestamp entry = Some s \<and> s \<noteq> [] \<and> resultSessionStart st \<noteq> None \<and>
      Option.bind (l_message entry) m_content = Some (Blocks [b]) \<longrightarrow>
        (processEntry nd clk entry st = st) =
          (nd s = e \<and> \<not> truthy_flag (b_is_error b) \<and>
           (\<forall>a. map_of (agentMap st) u = Some a \<longrightarrow>
              a_status a = AgentCompleted \<and> a_endTime a = Some (nd s))))"
proof (intro impI, elim conjE)
  assume h: "b_type b = ''tool_result''" "b_tool_use_id b = Some u" "u \<noteq> []"
    "map_of (toolMap st) u = Some t" "t_status t = Completed" "t_endTime t = Some e"
  define restamp :: "date \<Rightarrow> ToolEntry \<Rightarrow> ToolEntry" where "restamp ts' =
      (\<lambda>tool. tool\<lparr> t_status := (if truthy_flag (b_is_error b) then Error else Completed),
                    t_endTime := Some ts' \<rparr>)" for ts'
  define complete :: "date \<Rightarrow> AgentEntry \<Rightarrow> AgentEntry" where "complete ts' =
      (\<lambda>agent. agent\<lparr> a_status := AgentCompleted, a_endTime := Some ts' \<rparr>)" for ts'
  have form: "processBlock ts' b st =
      st\<lparr> toolMap := map_modify u (restamp ts') (toolMap st),
          agentMap := map_modify u (complete ts') (agentMap st) \<rparr>" for ts'
  proof -
    from h(1) have "tool_use_step ts' b st = st"
      by (simp add: tool_use_step_def split: option.splits)
    with h(1,2,3) show ?thesis
      by (simp add: processBlock_def tool_result_step_def restamp_def complete_def)
  qed
  have same: "(processBlock ts' b st = st) =
      (ts' = e \<and> \<not> truthy_flag (b_is_error b) \<and>
       (\<forall>a. map_of (agentMap st) u = Some a \<longrightarrow>
          a_status a = AgentCompleted \<and> a_endTime a = Some ts'))" for ts'
  proof -
    have "(processBlock ts' b st = st) =
        (map_modify u (restamp ts') (toolMap st) = toolMap st \<and>
         map_modify u (complete ts') (agentMap st) = agentMap st)"
      unfolding form by (rule acc_maps_eq)
    also have "(map_modify u (restamp ts') (toolMap st) = toolMap st) = (restamp ts' t = t)"
      using h(4) by (simp add: map_modify_fixed)
    also have "(restamp ts' t = t) = (ts' = e \<and> \<not> truthy_flag (b_is_error b))"
      unfolding restamp_def using restamp_fixed [OF h(5,6)] by auto
    also have "(map_modify u (complete ts') (agentMap st) = agentMap st) =
        (\<forall>a. map_of (agentMap st) u = Some a \<longrightarrow>
           a_status a = AgentCompleted \<and> a_endTime a = Some ts')"
      by (cases "map_of (agentMap st) u")
         (simp_all add: map_modify_fixed complete_def complete_fixed)
    finally show ?thesis by blast
  qed
  have keys: "map fst (toolMap (processBlock ts b st)) = map fst (toolMap st)"
    "map fst (agentMap (processBlock ts b st)) = map fst (agentMap st)"
    by (simp_all add: form keys_map_modify)
  have others: "\<forall>k. k \<noteq> u \<longrightarrow>
        map_of (toolMap (processBlock ts b st)) k = map_of (toolMap st) k \<and>
        map_of (agentMap (processBlock ts b st)) k = map_of (agentMap st) k"
    by (simp add: form map_of_map_modify_other)
  have mine: "map_of (toolMap (processBlock ts b st)) u = Some (restamp ts t)"
    "map_of (agentMap (processBlock ts b st)) u = map_option (complete ts) (map_of (agentMap st) u)"
    using h(4) by (simp_all add: form map_of_map_modify_same)
  have entry: "(processEntry nd clk entry st = st) =
        (nd s = e \<and> \<not> truthy_flag (b_is_error b) \<and>
         (\<forall>a. map_of (agentMap st) u = Some a \<longrightarrow>
            a_status a = AgentCompleted \<and> a_endTime a = Some (nd s)))"
    if "l_timestamp entry = Some s \<and> s \<noteq> [] \<and> resultSessionStart st \<noteq> None \<and>
      Option.bind (l_message entry) m_content = Some (Blocks [b])"
  proof -
    from that have eq: "processEntry nd clk entry st = processBlock (nd s) b st"
      by (intro processEntry_stamped) simp_all
    show ?thesis unfolding eq by (rule same)
  qed
  from form [of ts] keys others mine same [of ts] entry
  show "processBlock ts b st =
       st\<lparr> toolMap :=
             map_modify u
               (\<lambda>tool. tool\<lparr> t_status := (if truthy_flag (b_is_error b) then Error
                                            else Completed),
                             t_endTime := Some ts \<rparr>)
               (toolMap st),
           agentMap :=
             map_modify u
               (\<lambda>agent. agent\<lparr> a_status := AgentCompleted, a_endTime := Some ts \<rparr>)
               (agentMap st) \<rparr> \<and>
     map fst (toolMap (processBlock ts b st)) = map fst (toolMap st) \<and>
     map fst (agentMap (processBlock ts b st)) = map fst (agentMap st) \<and>
     (\<forall>k. k \<noteq> u \<longrightarrow>
        map_of (toolMap (processBlock ts b st)) k = map_of (toolMap st) k \<and>
        map_of (agentMap (processBlock ts b st)) k = map_of (agentMap st) k) \<and>
     map_of (toolMap (processBlock ts b st)) u =
       Some (t\<lparr> t_status := (if truthy_flag (b_is_error b) then Error else Completed),
                t_endTime := Some ts \<rparr>) \<and>
     map_of (agentMap (processBlock ts b st)) u =
       map_option (\<lambda>agent. agent\<lparr> a_status := AgentCompleted, a_endTime := Some ts \<rparr>)
         (map_of (agentMap st) u) \<and>
     (processBlock ts b st = st) =
       (ts = e \<and> \<not> truthy_flag (b_is_error b) \<and>
        (\<forall>a. map_of (agentMap st) u = Some a \<longrightarrow>
           a_status a = AgentCompleted \<and> a_endTime a = Some ts)) \<and>
     (l_timestamp entry = Some s \<and> s \<noteq> [] \<and> resultSessionStart st \<noteq> None \<and>
      Option.bind (l_message entry) m_content = Some (Blocks [b]) \<longrightarrow>
        (processEntry nd clk entry st = st) =
          (nd s = e \<and> \<not> truthy_flag (b_is_error b) \<and>
           (\<forall>a. map_of (agentMap st) u = Some a \<longrightarrow>
              a_status a = AgentCompleted \<and> a_endTime a = Some (nd s))))"
    unfolding restamp_def complete_def by blast
qed

theorem duplicate_tool_result_witness:
  "processBlock (Date 1767240001000) duplicate_result done_state = done_state \<and>
   processBlock (Date 1767240002000) duplicate_result done_state \<noteq> done_state \<and>
   processBlock (Date 1767240001000) duplicate_result shared_state \<noteq> shared_state"
proof -
  have h: "b_type duplicate_result = ''tool_result'' \<and>
      b_tool_use_id duplicate_result = Some ''toolu_1'' \<and> ''toolu_1'' \<noteq> [] \<and>
      map_of (toolMap done_state) ''toolu_1'' = Some done_tool \<and>
      t_status done_tool = Completed \<and> t_endTime done_tool = Some (Date 1767240001000)"
    by (simp add: duplicate_result_def done_state_def done_tool_def)
  have h': "b_type duplicate_result = ''tool_result'' \<and>
      b_tool_use_id duplicate_result = Some ''toolu_1'' \<and> ''toolu_1'' \<noteq> [] \<and>
      map_of (toolMap shared_state) ''toolu_1'' = Some done_tool \<and>
      t_status done_tool = Completed \<and> t_endTime done_tool = Some (Date 1767240001000)"
    by (simp add: duplicate_result_def shared_state_def done_state_def done_tool_def)
  have f: "\<not> truthy_flag (b_is_error duplicate_result)"
    by (simp add: duplicate_result_def truthy_flag_def)
  have none: "map_of (agentMap done_state) ''toolu_1'' = None"
    by (simp add: done_state_def)
  have some: "map_of (agentMap shared_state) ''toolu_1'' = Some running_agent"
    "a_status running_agent \<noteq> AgentCompleted"
    by (simp_all add: shared_state_def running_agent_def)
  from duplicate_tool_result
         [where b = duplicate_result and u = "''toolu_1''" and st = done_state
            and t = done_tool and e = "Date 1767240001000" and ts = "Date 1767240001000"] h
  have "(processBlock (Date 1767240001000) duplicate_result done_state = done_state) =
      (Date 1767240001000 = Date 1767240001000 \<and> \<not> truthy_flag (b_is_error duplicate_result) \<and>
       (\<forall>a. map_of (agentMap done_state) ''toolu_1'' = Some a \<longrightarrow>
          a_status a = AgentCompleted \<and> a_endTime a = Some (Date 1767240001000)))"
    by blast
  with f none
  have same: "processBlock (Date 1767240001000) duplicate_result done_state = done_state"
    by simp
  from duplicate_tool_result
         [where b = duplicate_result and u = "''toolu_1''" and st = done_state
            and t = done_tool and e = "Date 1767240001000" and ts = "Date 1767240002000"] h
  have "(processBlock (Date 1767240002000) duplicate_result done_state = done_state) =
      (Date 1767240002000 = Date 1767240001000 \<and> \<not> truthy_flag (b_is_error duplicate_result) \<and>
       (\<forall>a. map_of (agentMap done_state) ''toolu_1'' = Some a \<longrightarrow>
          a_status a = AgentCompleted \<and> a_endTime a = Some (Date 1767240002000)))"
    by blast
  then have later: "processBlock (Date 1767240002000) duplicate_result done_state \<noteq> done_state"
    by simp
  from duplicate_tool_result
         [where b = duplicate_result and u = "''toolu_1''" and st = shared_state
            and t = done_tool and e = "Date 1767240001000" and ts = "Date 1767240001000"] h'
  have "(processBlock (Date 1767240001000) duplicate_result shared_state = shared_state) =
      (Date 1767240001000 = Date 1767240001000 \<and> \<not> truthy_flag (b_is_error duplicate_result) \<and>
       (\<forall>a. map_of (agentMap shared_state) ''toolu_1'' = Some a \<longrightarrow>
          a_status a = AgentCompleted \<and> a_endTime a = Some (Date 1767240001000)))"
    by blast
  with some
  have shared: "processBlock (Date 1767240001000) duplicate_result shared_state \<noteq> shared_state"
    by simp
  from same later shared show ?thesis by simp
qed

end
